theory Spec2Isabelle
  imports Main "HOL-Library.AList"
begin

section \<open>Python values and exceptions\<close>

text \<open>
  The configuration documents are what \<open>yaml.safe_load\<close> returns: nested dictionaries and
  lists over scalars. A dictionary is an association list in insertion order (Python
  dictionaries keep it); its keys are strings. Floats, dates and binaries are left out:
  for every operation used by \<open>corvil_extract.py\<close> they behave like \<open>YInt\<close> (no
  \<open>len\<close>, no \<open>keys\<close>, no subscript).
\<close>

datatype yaml =
    YNull
  | YBool bool
  | YInt int
  | YStr string
  | YList "yaml list"
  | YMap "(string \<times> yaml) list"

text \<open>
  The exceptions the script can meet. \<open>SystemExit\<close> is not an \<open>Exception\<close> in Python, so the
  \<open>except Exception\<close> of the \<open>__main__\<close> guard lets it through; all the others are caught
  there. \<open>ExternalError\<close> stands for whatever an external helper raises.
\<close>

datatype error =
    KeyError string
  | TypeError
  | AttributeError
  | IndexError
  | FileNotFoundError string
  | UnboundLocalError string
  | BadGzipFile
  | UnicodeDecodeError
  | ExternalError string
  | SystemExit nat

text \<open>\<open>d[k]\<close>: only a dictionary can be subscripted by a string.\<close>

definition py_getitem :: "yaml \<Rightarrow> string \<Rightarrow> error + yaml" where
  "py_getitem d k =
     (case d of
        YMap kvs \<Rightarrow> (case map_of kvs k of None \<Rightarrow> Inl (KeyError k) | Some v \<Rightarrow> Inr v)
      | _ \<Rightarrow> Inl TypeError)"

text \<open>\<open>d.items()\<close> and \<open>d.keys()\<close>: only a dictionary has them.\<close>

definition py_items :: "yaml \<Rightarrow> error + (string \<times> yaml) list" where
  "py_items d = (case d of YMap kvs \<Rightarrow> Inr kvs | _ \<Rightarrow> Inl AttributeError)"

text \<open>\<open>len(v)\<close>: strings, lists and dictionaries have a length, the other values raise.\<close>

definition py_len :: "yaml \<Rightarrow> error + nat" where
  "py_len v =
     (case v of
        YStr s \<Rightarrow> Inr (length s)
      | YList xs \<Rightarrow> Inr (length xs)
      | YMap kvs \<Rightarrow> Inr (length kvs)
      | _ \<Rightarrow> Inl TypeError)"

section \<open>Config to valid extracts\<close>

text \<open>
  One of the three tests of \<open>get_valid_extracts\<close>:
  \<^verbatim>\<open>k not in properties.keys() or (k in properties.keys() and len(properties[k]) == 0)\<close>.
  The \<open>or\<close> does not evaluate \<open>len\<close> when the key is missing.
\<close>

definition missing_or_empty :: "string \<Rightarrow> (string \<times> yaml) list \<Rightarrow> error + bool" where
  "missing_or_empty k properties =
     (case map_of properties k of
        None \<Rightarrow> Inr True
      | Some v \<Rightarrow> (case py_len v of Inl e \<Rightarrow> Inl e | Inr n \<Rightarrow> Inr (n = 0)))"

text \<open>
  The body of the inner loop up to \<open>if entry_complete is True\<close>: the three tests run in
  the order cne, rt-class, decoder_extracts, each one may raise, each one can only clear
  the flag.
\<close>

definition entry_complete :: "yaml \<Rightarrow> error + bool" where
  "entry_complete properties =
     (case py_items properties of
        Inl e \<Rightarrow> Inl e
      | Inr ps \<Rightarrow>
         (case missing_or_empty ''cne'' ps of
            Inl e \<Rightarrow> Inl e
          | Inr b1 \<Rightarrow>
             (case missing_or_empty ''rt-class'' ps of
                Inl e \<Rightarrow> Inl e
              | Inr b2 \<Rightarrow>
                 (case missing_or_empty ''decoder_extracts'' ps of
                    Inl e \<Rightarrow> Inl e
                  | Inr b3 \<Rightarrow> Inr (\<not> b1 \<and> \<not> b2 \<and> \<not> b3)))))"

text \<open>
  \<open>for extract, properties in value["extracts"].items()\<close>, with \<open>tmp_dict\<close> as the
  accumulator; \<open>tmp_dict[extract] = properties\<close> is \<open>AList.update\<close> (replace in place or
  append).
\<close>

fun extracts_loop ::
  "(string \<times> yaml) list \<Rightarrow> (string \<times> yaml) list \<Rightarrow> error + (string \<times> yaml) list" where
  "extracts_loop [] tmp_dict = Inr tmp_dict"
| "extracts_loop ((extract, properties) # rest) tmp_dict =
     (case entry_complete properties of
        Inl e \<Rightarrow> Inl e
      | Inr c \<Rightarrow>
          extracts_loop rest
            (if c then AList.update extract properties tmp_dict else tmp_dict))"

text \<open>\<open>for key, value in corvilConfig["markets"].items()\<close>, with \<open>valid_extracts\<close> as accumulator.\<close>

fun markets_loop ::
  "(string \<times> yaml) list \<Rightarrow> (string \<times> (string \<times> yaml) list) list
     \<Rightarrow> error + (string \<times> (string \<times> yaml) list) list" where
  "markets_loop [] valid_extracts = Inr valid_extracts"
| "markets_loop ((key, val) # rest) valid_extracts =
     (case py_items val of
        Inl e \<Rightarrow> Inl e
      | Inr kvs \<Rightarrow>
         (case map_of kvs ''extracts'' of
            None \<Rightarrow> markets_loop rest valid_extracts
          | Some exs \<Rightarrow>
             (case py_items exs of
                Inl e \<Rightarrow> Inl e
              | Inr items \<Rightarrow>
                 (case extracts_loop items [] of
                    Inl e \<Rightarrow> Inl e
                  | Inr tmp_dict \<Rightarrow>
                      markets_loop rest (AList.update key tmp_dict valid_extracts)))))"

definition get_valid_extracts :: "yaml \<Rightarrow> error + (string \<times> (string \<times> yaml) list) list" where
  "get_valid_extracts corvilConfig =
     (case py_getitem corvilConfig ''markets'' of
        Inl e \<Rightarrow> Inl e
      | Inr markets \<Rightarrow>
         (case py_items markets of
            Inl e \<Rightarrow> Inl e
          | Inr items \<Rightarrow> markets_loop items []))"

section \<open>Python strings\<close>

text \<open>
  A \<open>str\<close> is a \<open>string\<close>; the characters of the files, commands and names the script
  handles are single bytes. The newline, the double quote and the backslash have no
  place inside a literal, so they are named.
\<close>

definition nl :: char where "nl = CHR 0x0A"
definition dq :: char where "dq = CHR 0x22"
definition bs :: char where "bs = CHR 0x5C"

text \<open>\<open>sep.join(xs)\<close>.\<close>

fun join :: "string \<Rightarrow> string list \<Rightarrow> string" where
  "join sep [] = []"
| "join sep [x] = x"
| "join sep (x # y # ys) = x @ sep @ join sep (y # ys)"

text \<open>\<open>s.split(c)\<close> for a one-character separator: never empty, \<open>"".split(",") == [""]\<close>.\<close>

fun split_on :: "char \<Rightarrow> string \<Rightarrow> string list" where
  "split_on c [] = [[]]"
| "split_on c (x # xs) =
     (if x = c then [] # split_on c xs
      else (case split_on c xs of [] \<Rightarrow> [[x]] | y # ys \<Rightarrow> (x # y) # ys))"

text \<open>\<open>s.replace('"', "")\<close>.\<close>

definition remove_dq :: "string \<Rightarrow> string" where
  "remove_dq s = filter (\<lambda>c. c \<noteq> dq) s"

text \<open>\<open>s.strip("\n")\<close>: newlines go from both ends.\<close>

definition strip_nl :: "string \<Rightarrow> string" where
  "strip_nl s = rev (dropWhile (\<lambda>c. c = nl) (rev (dropWhile (\<lambda>c. c = nl) s)))"

text \<open>
  \<open>f.readline()\<close> at the start of a file: the text up to and including the first newline,
  all of it when there is none. The text of a file is what Python's text mode presents
  (line ends are \<open>\n\<close>).
\<close>

definition readline :: "string \<Rightarrow> string" where
  "readline s = takeWhile (\<lambda>c. c \<noteq> nl) s @ (if nl \<in> set s then [nl] else [])"

text \<open>
  Iterating over a file yields its lines, each with its newline, the last one possibly
  without. \<open>lines_acc cur s\<close> scans \<open>s\<close> with \<open>cur\<close> the line read so far.
\<close>

fun lines_acc :: "string \<Rightarrow> string \<Rightarrow> string list" where
  "lines_acc cur [] = (if cur = [] then [] else [cur])"
| "lines_acc cur (c # cs) =
     (if c = nl then (cur @ [c]) # lines_acc [] cs else lines_acc (cur @ [c]) cs)"

definition py_lines :: "string \<Rightarrow> string list" where
  "py_lines s = lines_acc [] s"

text \<open>\<open>str(n)\<close> for a length or a size.\<close>

function str_nat :: "nat \<Rightarrow> string" where
  "str_nat n =
     (if n < 10 then [''0123456789'' ! n]
      else str_nat (n div 10) @ [''0123456789'' ! (n mod 10)])"
  by pat_completeness auto
termination
  by (relation "measure (\<lambda>n. n)") auto

text \<open>
  \<open>re.sub(r".gz", ".manifest", s)\<close>: from left to right, every non-overlapping run of
  one character other than a newline followed by \<open>gz\<close> is replaced.
\<close>

fun sub_gz :: "string \<Rightarrow> string" where
  "sub_gz (c # g # z # rest) =
     (if c \<noteq> nl \<and> g = CHR ''g'' \<and> z = CHR ''z'' then ''.manifest'' @ sub_gz rest
      else c # sub_gz (g # z # rest))"
| "sub_gz s = s"

section \<open>The world and the external collaborators\<close>

text \<open>
  What the script changes: the files (path and bytes, in directory order; paths are
  compared as written), the log written through \<open>lf.write\<close>, the lines printed, the
  commands handed to \<open>run_command\<close> (command and stage description) and the mails sent.
\<close>

record world =
  files :: "(string \<times> string) list"
  logfile :: "string list"
  printed :: "string list"
  commands :: "(string \<times> string) list"
  mails :: "string list"

text \<open>
  What \<open>corvil_extract.py\<close> uses and does not define: the helper \<open>run_command\<close> (its
  effect on the files, and the exception it raises if any), the credential store,
  \<open>gzip\<close>, the regular expressions built from a file name, \<open>strftime\<close>, \<open>str\<close> of a
  value that is not a string, \<open>os.name\<close> and the SMTP server. \<open>event_log\<close>, \<open>Market\<close> and
  \<open>cpm_connect\<close> are taken to return.
\<close>

record env =
  run_command_ext ::
    "string \<Rightarrow> string \<Rightarrow> (string \<times> string) list \<Rightarrow> error option \<times> (string \<times> string) list"
  get_stored_credentials :: "string \<Rightarrow> yaml"
  gunzip :: "string \<Rightarrow> string option"
  re_match :: "string \<Rightarrow> string \<Rightarrow> bool"
  re_split_head :: "string \<Rightarrow> string \<Rightarrow> error + string"
  strftime :: "int \<Rightarrow> string \<Rightarrow> string"
  py_repr :: "yaml \<Rightarrow> string"
  str_args :: "string"
  str_exception :: "error \<Rightarrow> string"
  os_name :: "string"
  smtp_connect :: "error option"
  smtp_sendmail :: "string \<Rightarrow> string option"
  smtp_quit :: "error option"

text \<open>A computation reads and changes the world and returns a value or raises.\<close>

type_synonym 'a comp = "world \<Rightarrow> (error + 'a) \<times> world"

definition ret :: "'a \<Rightarrow> 'a comp" where
  "ret x w = (Inr x, w)"

definition raise :: "error \<Rightarrow> 'a comp" where
  "raise e w = (Inl e, w)"

definition lift :: "error + 'a \<Rightarrow> 'a comp" where
  "lift r w = (r, w)"

definition thn :: "'a comp \<Rightarrow> ('a \<Rightarrow> 'b comp) \<Rightarrow> 'b comp" where
  "thn m f w = (case m w of (Inl e, w') \<Rightarrow> (Inl e, w') | (Inr x, w') \<Rightarrow> f x w')"

text \<open>Statements one after the other; the first exception ends the sequence.\<close>

fun seqs :: "unit comp list \<Rightarrow> unit comp" where
  "seqs [] = ret ()"
| "seqs (m # ms) = thn m (\<lambda>_. seqs ms)"

definition lf_write :: "string \<Rightarrow> unit comp" where
  "lf_write msg w = (Inr (), w\<lparr>logfile := logfile w @ [msg]\<rparr>)"

definition py_print :: "string \<Rightarrow> unit comp" where
  "py_print msg w = (Inr (), w\<lparr>printed := printed w @ [msg]\<rparr>)"

text \<open>
  \<open>open(path)\<close> reads in text mode: the bytes are decoded as UTF-8 (the encoding of the
  locale on Linux), strictly, and \<open>\r\n\<close> and \<open>\r\<close> become \<open>\n\<close>. A text is kept as its UTF-8
  bytes: splitting on a comma or a newline and comparing give the same on the bytes as on
  the code points. The whole file is decoded at once; Python decodes in chunks of 8192
  bytes, so in a longer file an invalid byte behind the part that is read is not met.
\<close>

definition cr :: char where "cr = CHR 0x0D"

definition continuation :: "char \<Rightarrow> bool" where
  "continuation c = (0x80 \<le> (of_char c :: nat) \<and> (of_char c :: nat) \<le> 0xBF)"

fun utf8_valid :: "string \<Rightarrow> bool" where
  "utf8_valid [] = True"
| "utf8_valid (a # rest) =
     (let n = (of_char a :: nat) in
      if n < 0x80 then utf8_valid rest
      else if 0xC2 \<le> n \<and> n \<le> 0xDF then
        (case rest of b # r \<Rightarrow> continuation b \<and> utf8_valid r | _ \<Rightarrow> False)
      else if 0xE0 \<le> n \<and> n \<le> 0xEF then
        (case rest of
           b # c # r \<Rightarrow>
             (if n = 0xE0 then 0xA0 \<le> (of_char b :: nat) \<and> (of_char b :: nat) \<le> 0xBF
              else if n = 0xED then 0x80 \<le> (of_char b :: nat) \<and> (of_char b :: nat) \<le> 0x9F
              else continuation b)
             \<and> continuation c \<and> utf8_valid r
         | _ \<Rightarrow> False)
      else if 0xF0 \<le> n \<and> n \<le> 0xF4 then
        (case rest of
           b # c # d # r \<Rightarrow>
             (if n = 0xF0 then 0x90 \<le> (of_char b :: nat) \<and> (of_char b :: nat) \<le> 0xBF
              else if n = 0xF4 then 0x80 \<le> (of_char b :: nat) \<and> (of_char b :: nat) \<le> 0x8F
              else continuation b)
             \<and> continuation c \<and> continuation d \<and> utf8_valid r
         | _ \<Rightarrow> False)
      else False)"

fun universal_newlines :: "string \<Rightarrow> string" where
  "universal_newlines (c # d # cs) =
     (if c = cr \<and> d = nl then nl # universal_newlines cs
      else if c = cr then nl # universal_newlines (d # cs)
      else c # universal_newlines (d # cs))"
| "universal_newlines [c] = (if c = cr then [nl] else [c])"
| "universal_newlines [] = []"

definition decode_text :: "string \<Rightarrow> string option" where
  "decode_text bytes = (if utf8_valid bytes then Some (universal_newlines bytes) else None)"

definition isfile :: "world \<Rightarrow> string \<Rightarrow> bool" where
  "isfile w path = (map_of (files w) path \<noteq> None)"

definition os_remove :: "string \<Rightarrow> unit comp" where
  "os_remove path w =
     (if isfile w path then (Inr (), w\<lparr>files := AList.delete path (files w)\<rparr>)
      else (Inl (FileNotFoundError path), w))"

text \<open>The bytes of a file, as \<open>gzip.open\<close> and \<open>os.path.getsize\<close> see them.\<close>

definition read_bytes :: "string \<Rightarrow> string comp" where
  "read_bytes path w =
     (case map_of (files w) path of
        None \<Rightarrow> (Inl (FileNotFoundError path), w)
      | Some bytes \<Rightarrow> (Inr bytes, w))"

text \<open>The text of a file opened with \<open>open(path)\<close>.\<close>

definition read_text :: "string \<Rightarrow> string comp" where
  "read_text path w =
     (case map_of (files w) path of
        None \<Rightarrow> (Inl (FileNotFoundError path), w)
      | Some bytes \<Rightarrow>
          (case decode_text bytes of
             None \<Rightarrow> (Inl UnicodeDecodeError, w)
           | Some text \<Rightarrow> (Inr text, w)))"

definition write_text :: "string \<Rightarrow> string \<Rightarrow> unit comp" where
  "write_text path s w = (Inr (), w\<lparr>files := AList.update path s (files w)\<rparr>)"

text \<open>
  \<open>run_command(cmd, msg)\<close>: the call is recorded, the helper's effect on the files is
  applied, and what it raises is raised.
\<close>

definition run_command :: "env \<Rightarrow> string \<Rightarrow> string \<Rightarrow> unit comp" where
  "run_command ev cmd msg w =
     (case run_command_ext ev cmd msg (files w) of
        (r, fs) \<Rightarrow>
          (let w' = w\<lparr>files := fs, commands := commands w @ [(cmd, msg)]\<rparr>
           in case r of None \<Rightarrow> (Inr (), w') | Some e \<Rightarrow> (Inl e, w')))"

text \<open>A value put into a format string or concatenated: a string as it is, else \<open>str\<close> of it.\<close>

definition fmt :: "env \<Rightarrow> yaml \<Rightarrow> string" where
  "fmt ev v = (case v of YStr s \<Rightarrow> s | _ \<Rightarrow> py_repr ev v)"

section \<open>Listing\<close>

fun list_extracts :: "env \<Rightarrow> (string \<times> (string \<times> yaml) list) list \<Rightarrow> string \<Rightarrow> unit comp" where
  "list_extracts ev valid_extracts mic =
     thn (py_print (''List of available extracts for mic: '' @ mic @ [nl])) (\<lambda>_.
       case map_of valid_extracts mic of
         None \<Rightarrow> raise (KeyError mic)
       | Some exts \<Rightarrow> seqs (map (\<lambda>(key, val). py_print (key @ '': '' @ py_repr ev val)) exts))"

section \<open>Email\<close>

text \<open>
  \<open>smtplib.SMTP("localhost")\<close> is outside the \<open>try\<close>, so a refused connection is raised;
  a failing \<open>sendmail\<close> is only logged; \<open>s.quit()\<close> is outside the \<open>try\<close> again.
\<close>

definition mail_body :: "env \<Rightarrow> yaml \<Rightarrow> string \<Rightarrow> string \<Rightarrow> string" where
  "mail_body ev rt_class start_time end_time =
     ''ERROR while extracting:'' @ [nl] @ fmt ev rt_class @ '' '' @ start_time @ ''-'' @ end_time"

definition send_mail :: "env \<Rightarrow> yaml \<Rightarrow> string \<Rightarrow> string \<Rightarrow> unit comp" where
  "send_mail ev rt_class start_time end_time =
     (let body = mail_body ev rt_class start_time end_time
      in case smtp_connect ev of
           Some e \<Rightarrow> raise e
         | None \<Rightarrow>
             thn (case smtp_sendmail ev body of
                    None \<Rightarrow> (\<lambda>w. (Inr (), w\<lparr>mails := mails w @ [body]\<rparr>))
                  | Some txt \<Rightarrow> lf_write (''Error sending email: '' @ txt))
               (\<lambda>_. case smtp_quit ev of Some e \<Rightarrow> raise e | None \<Rightarrow> ret ()))"

section \<open>Verify columns\<close>

text \<open>
  The \<open>while\<close> loop of \<open>verify_cols\<close>, entered with \<open>i = 0\<close> when the two lists have the
  same length; its value is \<open>verified\<close>. A subscript out of range raises, and so does
  \<open>"Expected column name: " + x\<close> when \<open>x\<close> is not a string.
\<close>

function col_loop :: "nat \<Rightarrow> yaml list \<Rightarrow> string list \<Rightarrow> bool comp" where
  "col_loop i verify_field_list col_list =
     (if i < length verify_field_list then
        (if length col_list \<le> i then raise IndexError
         else if YStr (col_list ! i) \<noteq> verify_field_list ! i then
           thn (lf_write (''Column mismatch at output file column position '' @ str_nat (i + 1)))
             (\<lambda>_. case verify_field_list ! i of
                     YStr s \<Rightarrow>
                       thn (lf_write (''Expected column name: '' @ s)) (\<lambda>_.
                       thn (lf_write (''Got column name: '' @ col_list ! i)) (\<lambda>_.
                       ret False))
                   | _ \<Rightarrow> raise TypeError)
         else col_loop (i + 1) verify_field_list col_list)
      else ret True)"
  by pat_completeness auto
termination
  by (relation "measure (\<lambda>(i, verify_field_list, col_list). length verify_field_list - i)") auto

definition verify_cols ::
  "env \<Rightarrow> string \<Rightarrow> yaml list \<Rightarrow> yaml \<Rightarrow> string \<Rightarrow> string \<Rightarrow> bool comp" where
  "verify_cols ev verify_header_filename verify_field_list rt_class start_time end_time =
     thn (lf_write ''Running column verification'') (\<lambda>_.
     thn (read_text verify_header_filename) (\<lambda>text.
       let header_row = strip_nl (readline text);
           col_list = split_on CHR '','' header_row
       in
       thn (if length verify_field_list \<noteq> length col_list then
              thn (seqs
                [lf_write ''Verification failed. Column count mismatch'',
                 lf_write (''Expected Column Count: '' @ str_nat (length verify_field_list)),
                 lf_write (''Actual Column Count: '' @ str_nat (length col_list))])
                (\<lambda>_. ret False)
            else col_loop 0 verify_field_list col_list)
         (\<lambda>verified.
            if \<not> verified then
              thn (seqs
                [lf_write ''Expected Columns:'',
                 lf_write (py_repr ev (YList verify_field_list)),
                 lf_write ''Actual Columns:'',
                 lf_write (py_repr ev (YList (map YStr col_list))),
                 send_mail ev rt_class start_time end_time,
                 lf_write ''Script terminated with ERROR - exit code 1''])
                (\<lambda>_. ret False)
            else
              thn (seqs
                [lf_write ''Column verification passed'',
                 lf_write (''Deleting verification file: '' @ verify_header_filename),
                 os_remove verify_header_filename])
                (\<lambda>_. ret True))))"

section \<open>Line count of a gzip file\<close>

text \<open>
  \<open>for i, _ in enumerate(f): pass\<close> leaves \<open>i\<close> at the last index, and unbound when the
  file has no line; \<open>return i + 1\<close> then raises \<open>UnboundLocalError\<close>.
\<close>

definition enumerate_last :: "'a list \<Rightarrow> nat option" where
  "enumerate_last xs = foldl (\<lambda>i (j, x). Some j) None (enumerate 0 xs)"

definition file_lcount :: "env \<Rightarrow> string \<Rightarrow> nat comp" where
  "file_lcount ev fname =
     thn (read_bytes fname) (\<lambda>bytes.
       case gunzip ev bytes of
         None \<Rightarrow> raise BadGzipFile
       | Some text \<Rightarrow>
           (case enumerate_last (py_lines text) of
              None \<Rightarrow> raise (UnboundLocalError ''i'')
            | Some i \<Rightarrow> ret (i + 1)))"

section \<open>Main\<close>

text \<open>
  The parsed command line. \<open>--testing\<close> is stored as the string given; a time is a number
  of seconds, formatted by \<open>strftime\<close>.
\<close>

datatype mode = ListMode | ExtractMode

record args =
  arg_execution_mode :: mode
  arg_mic :: string
  arg_extract_name :: string
  arg_start_time :: int
  arg_end_time :: int
  arg_filename :: "string option"
  arg_compress :: bool
  arg_overwrite :: bool
  arg_console :: bool
  arg_human :: bool
  arg_manifest :: bool
  arg_mnemonic :: "string option"
  arg_testing :: string
  arg_wildcard :: bool
  arg_no_verify :: bool

definition bnd :: "error + 'a \<Rightarrow> ('a \<Rightarrow> error + 'b) \<Rightarrow> error + 'b" where
  "bnd r f = (case r of Inl e \<Rightarrow> Inl e | Inr x \<Rightarrow> f x)"

text \<open>\<open>d[key]\<close> for a key read from the catalog: it has a length, and a list or a
  dictionary is no key of a dictionary and no index of anything else.\<close>

definition py_getitem_y :: "yaml \<Rightarrow> yaml \<Rightarrow> error + yaml" where
  "py_getitem_y d key = (case key of YStr k \<Rightarrow> py_getitem d k | _ \<Rightarrow> Inl TypeError)"

fun str_items :: "yaml list \<Rightarrow> string list option" where
  "str_items [] = Some []"
| "str_items (YStr s # rest) = map_option (\<lambda>ss. s # ss) (str_items rest)"
| "str_items (_ # rest) = None"

text \<open>\<open>",".join(v)\<close>: the items of a list must be strings; a string gives its characters,
  a dictionary its keys.\<close>

definition join_fields :: "yaml \<Rightarrow> error + string" where
  "join_fields v =
     (case v of
        YList xs \<Rightarrow> (case str_items xs of None \<Rightarrow> Inl TypeError | Some ss \<Rightarrow> Inr (join '','' ss))
      | YStr s \<Rightarrow> Inr (join '','' (map (\<lambda>c. [c]) s))
      | YMap kvs \<Rightarrow> Inr (join '','' (map fst kvs))
      | _ \<Rightarrow> Inl TypeError)"

text \<open>\<open>corvil_added_fields.copy() + temp_field_list.split(",")\<close>: only a list has both.\<close>

definition make_verify_field_list :: "yaml \<Rightarrow> string \<Rightarrow> error + yaml list" where
  "make_verify_field_list corvil_added_fields field_list =
     (let temp_field_list = remove_dq field_list
      in case corvil_added_fields of
           YList xs \<Rightarrow> Inr (xs @ map YStr (split_on CHR '','' temp_field_list))
         | YMap kvs \<Rightarrow> Inl TypeError
         | _ \<Rightarrow> Inl AttributeError)"

record resolved =
  rs_username :: yaml
  rs_password :: yaml
  rs_ip_address :: yaml
  rs_rt_class :: yaml
  rs_field_list :: string
  rs_verify_field_list :: "yaml list"

text \<open>Lines 378 to 412 of \<open>main\<close>: credentials, device address, class, field lists.\<close>

definition resolve_extract ::
  "env \<Rightarrow> yaml \<Rightarrow> (string \<times> (string \<times> yaml) list) list \<Rightarrow> string \<Rightarrow> string
     \<Rightarrow> error + resolved" where
  "resolve_extract ev ref_corvil_config valid_extracts mic extract_name =
     (let environment = ''prod'';
          corvil_credentials = get_stored_credentials ev (''corvil-'' @ environment)
      in
      bnd (py_getitem corvil_credentials ''username'') (\<lambda>username.
      bnd (py_getitem corvil_credentials ''password'') (\<lambda>password.
      bnd (case map_of valid_extracts mic of
             None \<Rightarrow> Inl (KeyError mic)
           | Some exts \<Rightarrow>
               (case map_of exts extract_name of
                  None \<Rightarrow> Inl (KeyError extract_name)
                | Some properties \<Rightarrow> Inr properties)) (\<lambda>properties.
      bnd (py_getitem properties ''cne'') (\<lambda>cne.
      bnd (py_getitem ref_corvil_config ''corvil'') (\<lambda>c1.
      bnd (py_getitem c1 environment) (\<lambda>c2.
      bnd (py_getitem c2 ''cne'') (\<lambda>c3.
      bnd (py_getitem_y c3 cne) (\<lambda>c4.
      bnd (py_getitem c4 ''ip'') (\<lambda>ip_address.
      bnd (py_getitem properties ''rt-class'') (\<lambda>rt_class.
      bnd (py_getitem properties ''decoder_extracts'') (\<lambda>decoder_extract.
      bnd (py_getitem ref_corvil_config ''decoder_extracts'') (\<lambda>d1.
      bnd (py_getitem_y d1 decoder_extract) (\<lambda>d2.
      bnd (py_getitem d2 ''extract_fields'') (\<lambda>extract_fields.
      bnd (join_fields extract_fields) (\<lambda>field_list.
      bnd (py_getitem ref_corvil_config ''decoder_extracts'') (\<lambda>d3.
      bnd (py_getitem_y d3 decoder_extract) (\<lambda>d4.
      bnd (py_getitem d4 ''corvil_added_fields'') (\<lambda>corvil_added_fields.
      bnd (make_verify_field_list corvil_added_fields field_list) (\<lambda>verify_field_list.
      Inr \<lparr>rs_username = username, rs_password = password, rs_ip_address = ip_address,
           rs_rt_class = rt_class, rs_field_list = field_list,
           rs_verify_field_list = verify_field_list\<rparr>))))))))))))))))))))"

text \<open>Lines 436 to 452: the check for an output that exists already.\<close>

definition when_isfile :: "string \<Rightarrow> unit comp \<Rightarrow> unit comp" where
  "when_isfile path m w = (if isfile w path then m w else (Inr (), w))"

definition check_output :: "bool \<Rightarrow> bool \<Rightarrow> string \<Rightarrow> unit comp" where
  "check_output compress overwrite filename w =
     (if isfile w (filename @ ''.csv'') \<or> (compress \<and> isfile w (filename @ ''.csv.gz'')) then
        (if overwrite then
           seqs
             [when_isfile (filename @ ''.csv'')
                (seqs [lf_write (''Deleting '' @ filename), os_remove (filename @ ''.csv'')]),
              when_isfile (filename @ ''.csv.gz'')
                (seqs [lf_write (''Deleting '' @ filename @ ''.csv.gz''),
                       os_remove (filename @ ''.csv.gz'')])] w
         else
           seqs
             [lf_write (filename @ '' found. Please delete or rerun with the overwrite flag.''),
              lf_write ''Exiting'',
              raise (SystemExit 1)] w)
      else (Inr (), w))"

text \<open>Lines 455 to 491: the retrieval command for a time window.\<close>

definition base_command ::
  "env \<Rightarrow> bool \<Rightarrow> resolved \<Rightarrow> string \<Rightarrow> string \<Rightarrow> string" where
  "base_command ev wildcard rs start_time end_time =
     ''python ./CorvilApiStreamingClient.py -c -b -n '' @ fmt ev (rs_username rs)
       @ '' -p '' @ fmt ev (rs_password rs)
       @ '' message-csv '' @ fmt ev (rs_ip_address rs) @ '' '' @ fmt ev (rs_rt_class rs)
       @ '' '' @ [dq] @ start_time @ [dq] @ '' '' @ [dq] @ end_time @ [dq]
       @ (if wildcard then [] else '' '' @ rs_field_list rs)"

text \<open>The stage \<open>| tr '\001' ','\<close> of the pipelines.\<close>

definition tr_stage :: string where
  "tr_stage = '' | tr '' @ [CHR 0x27, bs] @ ''001'' @ [CHR 0x27] @ '' '' @ [CHR 0x27] @ '',''
                @ [CHR 0x27]"

text \<open>
  Lines 502 to 582: the pipeline of the canary (\<open>test_file_cmd_suffix\<close>, not assigned in
  the two console branches) and of the full command (\<open>cmd_suffix\<close>).
\<close>

definition suffixes ::
  "bool \<Rightarrow> bool \<Rightarrow> bool \<Rightarrow> string \<Rightarrow> string \<Rightarrow> string option \<times> string" where
  "suffixes console compress human filename test_filename =
     (let test_file_cmd_suffix =
            '' | ./csv-comma2soh'' @ tr_stage @ '' | /bin/gzip > '' @ test_filename @ ''.csv.gz''
      in
      if console \<and> human then (None, '' | ./csv-comma2soh'' @ tr_stage)
      else if console then (None, '' | ./csv-comma2soh'')
      else if \<not> console \<and> \<not> compress \<and> human then
        (Some test_file_cmd_suffix, '' | ./csv-comma2soh'' @ tr_stage @ '' > '' @ filename @ ''.csv'')
      else if \<not> console \<and> compress \<and> human then
        (Some test_file_cmd_suffix,
         '' | ./csv-comma2soh'' @ tr_stage @ '' | /bin/gzip > '' @ filename @ ''.csv.gz'')
      else if \<not> console \<and> compress then
        (Some test_file_cmd_suffix, '' | ./csv-comma2soh | /bin/gzip > '' @ filename @ ''.csv.gz'')
      else
        (Some test_file_cmd_suffix, '' | ./csv-comma2soh > '' @ filename @ ''.csv''))"

text \<open>
  Lines 596 to 605: \<open>first_line\<close> is the line at index 5 of the file opened, if there is
  one; the verification file is created in any case and holds that line or nothing.
\<close>

definition sixth_line :: "string list \<Rightarrow> string option" where
  "sixth_line ls = map_option snd (find (\<lambda>(i, line). i = 5) (enumerate 0 ls))"

definition copy_header_row :: "string \<Rightarrow> string \<Rightarrow> unit comp" where
  "copy_header_row test_filename verify_test_filename =
     thn (read_text test_filename) (\<lambda>text.
       let first_line = sixth_line (py_lines text)
       in write_text verify_test_filename (case first_line of None \<Rightarrow> [] | Some l \<Rightarrow> l))"

text \<open>Lines 589 to 619; the value \<open>verify_cols\<close> returns is not used.\<close>

definition run_verification ::
  "env \<Rightarrow> resolved \<Rightarrow> string \<Rightarrow> string \<Rightarrow> string \<Rightarrow> string \<Rightarrow> unit comp" where
  "run_verification ev rs final_test_file_command test_filename start_time end_time =
     (let verify_test_filename = test_filename @ ''_temp_verify.csv''
      in seqs
        [run_command ev final_test_file_command ''Generating test file for column verification'',
         lf_write ''Generating verification file'',
         copy_header_row test_filename verify_test_filename,
         thn (verify_cols ev verify_test_filename (rs_verify_field_list rs) (rs_rt_class rs)
                start_time end_time) (\<lambda>_. ret ()),
         lf_write (''Deleting test extract file: '' @ test_filename @ ''.csv''),
         os_remove (test_filename @ ''.csv''),
         lf_write ''---------------------------------------------------------------''])"

section \<open>Manifest\<close>

text \<open>
  \<open>os.listdir(d)\<close> filtered by \<open>os.path.isfile\<close>: the names of the files directly in \<open>d\<close>.
  The empty path is no directory. \<open>os.path.join(d, f)\<close> puts one slash between the two
  unless \<open>d\<close> ends with one.
\<close>

definition dir_prefix :: "string \<Rightarrow> string" where
  "dir_prefix d = (if d = [] then [] else if last d = CHR ''/'' then d else d @ ''/'')"

definition path_join :: "string \<Rightarrow> string \<Rightarrow> string" where
  "path_join d f = dir_prefix d @ f"

definition listdir_files :: "string \<Rightarrow> string list comp" where
  "listdir_files d w =
     (if d = [] then (Inl (FileNotFoundError d), w)
      else
        (Inr (map (\<lambda>p. drop (length (dir_prefix d)) p)
               (filter (\<lambda>p. take (length (dir_prefix d)) p = dir_prefix d
                             \<and> drop (length (dir_prefix d)) p \<noteq> []
                             \<and> CHR ''/'' \<notin> set (drop (length (dir_prefix d)) p))
                  (map fst (files w)))), w))"

definition getsize :: "string \<Rightarrow> nat comp" where
  "getsize path = thn (read_bytes path) (\<lambda>bytes. ret (length bytes))"

text \<open>Lines 649, 653 and 654: the name of the manifest of an artifact (\<open>fsize\<close> is the
  source's \<open>size\<close>).\<close>

definition manifestfile_name :: "string \<Rightarrow> nat \<Rightarrow> string \<Rightarrow> string" where
  "manifestfile_name file_names fsize testing =
     (let manifestfile = sub_gz file_names
      in if fsize < 5000 \<and> testing = ''False'' then manifestfile @ ''.error'' else manifestfile)"

text \<open>Lines 648 to 657: the body of the loop over \<open>file_list\<close>.\<close>

definition manifest_one ::
  "env \<Rightarrow> string \<Rightarrow> string \<Rightarrow> string \<Rightarrow> string \<Rightarrow> string \<Rightarrow> unit comp" where
  "manifest_one ev f_path rx mnemonic testing file_names =
     (if re_match ev rx file_names then
        thn (file_lcount ev (path_join f_path file_names)) (\<lambda>line_count.
        thn (getsize (path_join f_path file_names)) (\<lambda>fsize.
          write_text (path_join f_path (manifestfile_name file_names fsize testing))
            (mnemonic @ ''|'' @ file_names @ ''|'' @ str_nat fsize @ ''|'' @ ''0'' @ [nl])))
      else ret ())"

definition write_manifests ::
  "env \<Rightarrow> string \<Rightarrow> string \<Rightarrow> string \<Rightarrow> string \<Rightarrow> unit comp" where
  "write_manifests ev f_path f_name mnemonic testing =
     thn (listdir_files f_path) (\<lambda>file_list.
       let rx = ''^'' @ f_name @ ''.*.gz''
       in seqs (map (manifest_one ev f_path rx mnemonic testing) file_list))"

section \<open>The two branches of main and the script\<close>

text \<open>Lines 496 to 657.\<close>

definition main_linux ::
  "env \<Rightarrow> args \<Rightarrow> resolved \<Rightarrow> string \<Rightarrow> string \<Rightarrow> string \<Rightarrow> string \<Rightarrow> string \<Rightarrow> unit comp" where
  "main_linux ev a rs filename start_time end_time base_cmd base_cmd_test_file =
     (let test_filename = filename @ ''_test'';
          f_name = last (split_on CHR ''/'' filename)
      in
      thn (lift (re_split_head ev f_name filename)) (\<lambda>f_path.
        case suffixes (arg_console a) (arg_compress a) (arg_human a) filename test_filename of
          (None, cmd_suffix) \<Rightarrow> raise (UnboundLocalError ''test_file_cmd_suffix'')
        | (Some test_file_cmd_suffix, cmd_suffix) \<Rightarrow>
            (let final_test_file_command = base_cmd_test_file @ '' '' @ test_file_cmd_suffix;
                 final_command = base_cmd @ '' '' @ cmd_suffix
             in seqs
               [if \<not> arg_console a \<and> \<not> arg_wildcard a \<and> \<not> arg_no_verify a then
                  run_verification ev rs final_test_file_command test_filename start_time end_time
                else ret (),
                run_command ev final_command ''Running extract'',
                if arg_compress a then
                  seqs
                    [run_command ev
                       (''tar -czf '' @ filename @ ''.csv.gz '' @ filename @ ''.csv'')
                       ''Compressing file'',
                     lf_write ''Deleting uncompressed version'',
                     os_remove (filename @ ''.csv'')]
                else ret (),
                case arg_mnemonic a of
                  None \<Rightarrow> ret ()
                | Some mnemonic \<Rightarrow>
                    if \<not> arg_console a \<and> arg_compress a \<and> arg_manifest a then
                      write_manifests ev f_path f_name mnemonic (arg_testing a)
                    else ret ()])))"

text \<open>Lines 662 to 677.\<close>

definition main_windows ::
  "env \<Rightarrow> args \<Rightarrow> string \<Rightarrow> string \<Rightarrow> string \<Rightarrow> unit comp" where
  "main_windows ev a filename base_cmd base_cmd_test_file =
     (let test_filename = filename @ ''_test'';
          cmd_suffix = (if arg_console a then [] else '' > '' @ filename @ ''.csv'');
          final_test_file_command = base_cmd_test_file @ '' > '' @ test_filename @ ''.csv'';
          final_command = base_cmd @ cmd_suffix
      in seqs
        [if \<not> arg_console a \<and> \<not> arg_wildcard a \<and> \<not> arg_no_verify a then
           run_command ev final_test_file_command
             ''-Generating test file for column verification----------------''
         else ret (),
         run_command ev final_command ''Running extract''])"

text \<open>Lines 496 and 662: everything after the check for an existing output.\<close>

definition main_run ::
  "env \<Rightarrow> args \<Rightarrow> resolved \<Rightarrow> string \<Rightarrow> string \<Rightarrow> string \<Rightarrow> string \<Rightarrow> string \<Rightarrow> unit comp" where
  "main_run ev a rs filename start_time end_time base_cmd base_cmd_test_file =
     (if os_name ev = ''nt'' then main_windows ev a filename base_cmd base_cmd_test_file
      else main_linux ev a rs filename start_time end_time base_cmd base_cmd_test_file)"

text \<open>Lines 338 to 677: \<open>main\<close> once the mode is \<open>extract\<close>.\<close>

definition main_extract ::
  "env \<Rightarrow> yaml \<Rightarrow> (string \<times> (string \<times> yaml) list) list \<Rightarrow> args \<Rightarrow> unit comp" where
  "main_extract ev ref_corvil_config valid_extracts a =
     (let mic = arg_mic a;
          extract_name = arg_extract_name a;
          start_time = strftime ev (arg_start_time a) ''%Y-%m-%d %H:%M:%S'';
          start_time_filename = strftime ev (arg_start_time a) ''%Y%m%d_%H-%M-%S'';
          end_time = strftime ev (arg_end_time a) ''%Y-%m-%d %H:%M:%S'';
          end_time_filename = strftime ev (arg_end_time a) ''%Y%m%d_%H-%M-%S'';
          end_time_verify_str = strftime ev (arg_start_time a + 1) ''%Y-%m-%d %H:%M:%S''
      in
      thn (lf_write (''Command line arguments used to invoke the script: '' @ str_args ev)) (\<lambda>_.
        case map_of valid_extracts mic of
          None \<Rightarrow> raise (KeyError mic)
        | Some exts \<Rightarrow>
            if extract_name \<notin> set (map fst exts) then
              seqs
                [lf_write
                   ''Invalid extract name specified. Please choose one of the valid values below'',
                 list_extracts ev valid_extracts mic]
            else
              thn (lift (resolve_extract ev ref_corvil_config valid_extracts mic extract_name))
                (\<lambda>rs.
                  let filename =
                        (case arg_filename a of
                           Some f \<Rightarrow> f
                         | None \<Rightarrow> mic @ ''_'' @ extract_name @ ''_'' @ start_time_filename
                                     @ ''_to_'' @ end_time_filename);
                      base_cmd = base_command ev (arg_wildcard a) rs start_time end_time;
                      base_cmd_test_file =
                        base_command ev (arg_wildcard a) rs start_time end_time_verify_str
                  in
                  thn (check_output (arg_compress a) (arg_overwrite a) filename) (\<lambda>_.
                    main_run ev a rs filename start_time end_time base_cmd
                      base_cmd_test_file))))"

text \<open>
  Lines 311 to 335: the catalog is built, the command line is parsed (a market that is
  not a key of the catalog is refused by \<open>argparse\<close>, which exits with status 2), and the
  mode is chosen.
\<close>

definition main :: "env \<Rightarrow> yaml \<Rightarrow> args \<Rightarrow> unit comp" where
  "main ev ref_corvil_config a =
     thn (lift (get_valid_extracts ref_corvil_config)) (\<lambda>valid_extracts.
       if arg_mic a \<notin> set (map fst valid_extracts) then raise (SystemExit 2)
       else
         (case arg_execution_mode a of
            ListMode \<Rightarrow> list_extracts ev valid_extracts (arg_mic a)
          | ExtractMode \<Rightarrow> main_extract ev ref_corvil_config valid_extracts a))"

text \<open>
  The \<open>__main__\<close> guard: an \<open>Exception\<close> is printed and the script ends normally, with
  exit status 0; \<open>sys.exit(n)\<close> ends it with status \<open>n\<close>.
\<close>

definition script :: "env \<Rightarrow> yaml \<Rightarrow> args \<Rightarrow> world \<Rightarrow> nat \<times> world" where
  "script ev ref_corvil_config a w =
     (case main ev ref_corvil_config a w of
        (Inr u, w') \<Rightarrow> (0, w')
      | (Inl (SystemExit n), w') \<Rightarrow> (n, w')
      | (Inl e, w') \<Rightarrow> (0, w'\<lparr>printed := printed w' @ [str_exception ev e]\<rparr>))"

section \<open>A concrete environment\<close>

text \<open>
  An environment, a configuration and a command line on which the model can be run: one
  market \<open>M1\<close> with a complete extract \<open>E1\<close> and an extract \<open>E2\<close> whose class is empty.
  The stand-in for \<open>run_command\<close> writes the rows of the retrieval tool to the file the
  command line redirects to; the stand-in for gzip puts the two magic bytes of gzip before the content; the
  stand-ins for \<open>re\<close> treat the file name as plain text; a time is a second of
  2024-01-01.
\<close>

definition gz :: "string \<Rightarrow> string" where
  "gz s = [CHR 0x1F, CHR 0x8B] @ s"

fun find_sub :: "string \<Rightarrow> string \<Rightarrow> string" where
  "find_sub pat [] = []"
| "find_sub pat (c # cs) = (if take (length pat) (c # cs) = pat then [] else c # find_sub pat cs)"

fun has_gz :: "string \<Rightarrow> bool" where
  "has_gz (c # g # z # rest) =
     ((c \<noteq> nl \<and> g = CHR ''g'' \<and> z = CHR ''z'') \<or> has_gz (g # z # rest))"
| "has_gz s = False"

definition redirect_target :: "string \<Rightarrow> string option" where
  "redirect_target cmd =
     (case split_on CHR ''>'' cmd of [x] \<Rightarrow> None | parts \<Rightarrow> Some (drop 1 (last parts)))"

definition canary_rows :: string where
  "canary_rows = ''ts,px,qty'' @ [nl] @ ''1,2,3'' @ [nl]"

definition pad2 :: "nat \<Rightarrow> string" where
  "pad2 n = [''0123456789'' ! (n div 10 mod 10), ''0123456789'' ! (n mod 10)]"

definition test_strftime :: "int \<Rightarrow> string \<Rightarrow> string" where
  "test_strftime t f =
     (let n = nat t; hh = pad2 (n div 3600 mod 24); mm = pad2 (n div 60 mod 60); ss = pad2 (n mod 60)
      in if f = ''%Y-%m-%d %H:%M:%S'' then ''2024-01-01 '' @ hh @ '':'' @ mm @ '':'' @ ss
         else ''20240101_'' @ hh @ ''-'' @ mm @ ''-'' @ ss)"

definition test_env :: env where
  "test_env = \<lparr>
     run_command_ext = (\<lambda>cmd msg fs.
        case redirect_target cmd of
          None \<Rightarrow> (None, fs)
        | Some p \<Rightarrow> (None, AList.update p (gz canary_rows) fs)),
     get_stored_credentials = (\<lambda>k. YMap [(''username'', YStr ''u''), (''password'', YStr ''p'')]),
     gunzip = (\<lambda>b. if take 2 b = [CHR 0x1F, CHR 0x8B] then Some (drop 2 b) else None),
     re_match = (\<lambda>rx s. take (length rx - 7) s = take (length rx - 7) (drop 1 rx)
                        \<and> has_gz (drop (length rx - 7) s)),
     re_split_head = (\<lambda>pat s. Inr (find_sub pat s)),
     strftime = test_strftime,
     py_repr = (\<lambda>v. ''<value>''),
     str_args = ''Namespace()'',
     str_exception = (\<lambda>e. ''<exception>''),
     os_name = ''posix'',
     smtp_connect = None,
     smtp_sendmail = (\<lambda>body. None),
     smtp_quit = None\<rparr>"

definition cfg0 :: yaml where
  "cfg0 = YMap
     [(''markets'', YMap [(''M1'', YMap [(''extracts'', YMap
        [(''E1'', YMap [(''cne'', YStr ''cne1''), (''rt-class'', YStr ''C1''),
                        (''decoder_extracts'', YStr ''D1'')]),
         (''E2'', YMap [(''cne'', YStr ''cne1''), (''rt-class'', YStr []),
                        (''decoder_extracts'', YStr ''D1'')])])])]),
      (''corvil'', YMap [(''prod'', YMap [(''cne'', YMap [(''cne1'', YMap
         [(''ip'', YStr ''10.0.0.5'')])])])]),
      (''decoder_extracts'', YMap [(''D1'', YMap
         [(''extract_fields'', YList [YStr ''px'', YStr ''qty'']),
          (''corvil_added_fields'', YList [YStr ''ts''])])])]"

definition catalog0 :: "(string \<times> (string \<times> yaml) list) list" where
  "catalog0 = [(''M1'', [(''E1'', YMap [(''cne'', YStr ''cne1''), (''rt-class'', YStr ''C1''),
                                        (''decoder_extracts'', YStr ''D1'')])])]"

definition args0 :: args where
  "args0 = \<lparr>arg_execution_mode = ExtractMode, arg_mic = ''M1'', arg_extract_name = ''E1'',
            arg_start_time = 0, arg_end_time = 3600, arg_filename = Some ''out/foo'',
            arg_compress = False, arg_overwrite = False, arg_console = False,
            arg_human = False, arg_manifest = False, arg_mnemonic = None,
            arg_testing = ''False'', arg_wildcard = False, arg_no_verify = False\<rparr>"

definition world0 :: world where
  "world0 = \<lparr>files = [], logfile = [], printed = [], commands = [], mails = []\<rparr>"

text \<open>The same decoder extract with a field name written in double quotes.\<close>

definition cfg_quoted :: yaml where
  "cfg_quoted = YMap
     [(''corvil'', YMap [(''prod'', YMap [(''cne'', YMap [(''cne1'', YMap
         [(''ip'', YStr ''10.0.0.5'')])])])]),
      (''decoder_extracts'', YMap [(''D1'', YMap
         [(''extract_fields'', YList [YStr ([dq] @ ''px'' @ [dq]), YStr ''qty'']),
          (''corvil_added_fields'', YList [YStr ''ts''])])])]"

text \<open>A compressed artifact of 4999 bytes.\<close>

definition small_gz :: string where
  "small_gz = gz (''ts,px,qty'' @ [nl] @ replicate 4987 (CHR ''x''))"

text \<open>
  Canary contents: the example of the specification (five lines before the header), and
  two texts whose sixth line has two and three columns. \<open>canary_env\<close> is the environment
  in which the retrieval tool answers with the example.
\<close>

definition example_lines :: string where
  "example_lines = ''meta1'' @ [nl] @ ''meta2'' @ [nl] @ ''meta3'' @ [nl] @ ''meta4'' @ [nl]
     @ ''meta5'' @ [nl] @ ''a,b,c'' @ [nl] @ ''1,2,3'' @ [nl]"

definition canary_env :: env where
  "canary_env = test_env\<lparr>run_command_ext := (\<lambda>cmd msg fs.
     case redirect_target cmd of
       None \<Rightarrow> (None, fs)
     | Some p \<Rightarrow> (None, AList.update p (gz example_lines) fs))\<rparr>"

definition mismatch_canary :: string where
  "mismatch_canary = ''m1'' @ [nl] @ ''m2'' @ [nl] @ ''m3'' @ [nl] @ ''m4'' @ [nl] @ ''m5'' @ [nl]
     @ ''ts,px'' @ [nl] @ ''1,2'' @ [nl]"

definition match_canary :: string where
  "match_canary = ''m1'' @ [nl] @ ''m2'' @ [nl] @ ''m3'' @ [nl] @ ''m4'' @ [nl] @ ''m5'' @ [nl]
     @ ''ts,px,qty'' @ [nl] @ ''1,2,3'' @ [nl]"

section \<open>The catalog leaves out incomplete definitions\<close>

lemma set_update_subset: "set (AList.update k v al) \<subseteq> insert (k, v) (set al)"
  by (induction al) auto

lemma entry_complete_True:
  "entry_complete properties = Inr True \<Longrightarrow>
     \<exists>ps. properties = YMap ps \<and>
       (\<forall>k \<in> {''cne'', ''rt-class'', ''decoder_extracts''}.
          \<exists>v n. map_of ps k = Some v \<and> py_len v = Inr n \<and> 0 < n)"
  by (auto simp: entry_complete_def py_items_def missing_or_empty_def
           split: yaml.splits sum.splits option.splits)

lemma extracts_loop_sound:
  "extracts_loop items tmp = Inr res \<Longrightarrow> (e, p) \<in> set res \<Longrightarrow>
     (e, p) \<in> set tmp \<or> ((e, p) \<in> set items \<and> entry_complete p = Inr True)"
proof (induction items arbitrary: tmp)
  case Nil
  then show ?case by simp
next
  case (Cons x items)
  obtain k v where x: "x = (k, v)" by (cases x)
  from Cons.prems(1) obtain c where c: "entry_complete v = Inr c"
    and rest: "extracts_loop items (if c then AList.update k v tmp else tmp) = Inr res"
    by (auto simp: x split: sum.splits)
  from Cons.IH [OF rest Cons.prems(2)]
  show ?case using set_update_subset [of k v tmp] c
    by (auto simp: x split: if_splits)
qed

lemma markets_loop_other:
  "markets_loop items acc = Inr cat \<Longrightarrow> m \<notin> fst ` set items \<Longrightarrow> map_of cat m = map_of acc m"
proof (induction items arbitrary: acc)
  case Nil
  then show ?case by simp
next
  case (Cons x items)
  obtain k v where x: "x = (k, v)" by (cases x)
  from Cons.prems(2) have km: "k \<noteq> m" and notin: "m \<notin> fst ` set items" by (auto simp: x)
  from Cons.prems(1) show ?case
    using Cons.IH [OF _ notin] km
    by (auto simp: x update_conv' split: sum.splits option.splits)
qed

lemma markets_loop_lookup:
  "markets_loop items acc = Inr cat \<Longrightarrow> distinct (map fst items) \<Longrightarrow>
   (m, YMap mv) \<in> set items \<Longrightarrow> map_of mv ''extracts'' = Some (YMap extracts) \<Longrightarrow>
     \<exists>exts. extracts_loop extracts [] = Inr exts \<and> map_of cat m = Some exts"
proof (induction items arbitrary: acc)
  case Nil
  then show ?case by simp
next
  case (Cons x items)
  obtain k v where x: "x = (k, v)" by (cases x)
  show ?case
  proof (cases "k = m")
    case True
    with Cons.prems(2,3) have v: "v = YMap mv" and notin: "m \<notin> fst ` set items"
      by (auto simp: x rev_image_eqI)
    from Cons.prems(1) Cons.prems(4) obtain exts where
      e: "extracts_loop extracts [] = Inr exts"
      and r: "markets_loop items (AList.update m exts acc) = Inr cat"
      by (auto simp: x v True py_items_def split: sum.splits)
    from markets_loop_other [OF r notin] e show ?thesis
      by (simp add: update_conv')
  next
    case False
    with Cons.prems(3) have mem: "(m, YMap mv) \<in> set items" by (auto simp: x)
    from Cons.prems(2) have d: "distinct (map fst items)" by simp
    from Cons.prems(1) obtain acc' where "markets_loop items acc' = Inr cat"
      by (auto simp: x split: sum.splits option.splits)
    from Cons.IH [OF this d mem Cons.prems(4)] show ?thesis .
  qed
qed

lemma seqs_print:
  "seqs (map (\<lambda>x. py_print (f x)) xs) w = (Inr (), w\<lparr>printed := printed w @ map f xs\<rparr>)"
  by (induction xs arbitrary: w) (simp_all add: thn_def py_print_def ret_def)

lemma list_extracts_prints:
  "map_of valid_extracts mic = Some exts \<Longrightarrow>
   list_extracts ev valid_extracts mic w =
     (Inr (), w\<lparr>printed := printed w
        @ (''List of available extracts for mic: '' @ mic @ [nl])
          # map (\<lambda>(key, val). key @ '': '' @ py_repr ev val) exts\<rparr>)"
  using seqs_print [of "\<lambda>(key, val). key @ '': '' @ py_repr ev val" exts]
  by (simp add: thn_def py_print_def case_prod_unfold)

lemma get_valid_extracts_cfg0: "get_valid_extracts cfg0 = Inr catalog0"
  by (simp add: cfg0_def catalog0_def get_valid_extracts_def py_getitem_def py_items_def
        entry_complete_def missing_or_empty_def py_len_def)

text \<open>
  C9. Take a configuration from which \<open>get_valid_extracts\<close> builds a catalog, a market of
  it with extract definitions, and one of these definitions in which one of the keys
  \<open>cne\<close>, \<open>rt-class\<close>, \<open>decoder_extracts\<close> is missing or has an empty value. (The keys of a
  dictionary are distinct.) Then the catalog has an entry for the market and the name of
  that definition is not among its keys: the test \<open>extract_name not in
  valid_extracts[mic].keys()\<close> of \<open>main\<close> rejects it, and \<open>list_extracts\<close> prints exactly one
  line per key of the entry, so none for it.
\<close>

theorem catalog_excludes_incomplete:
  assumes built: "get_valid_extracts corvilConfig = Inr valid_extracts"
    and cfg: "py_getitem corvilConfig ''markets'' = Inr (YMap markets)"
    and dm: "distinct (map fst markets)"
    and m: "(mic, YMap mv) \<in> set markets"
    and ex: "map_of mv ''extracts'' = Some (YMap extracts)"
    and de: "distinct (map fst extracts)"
    and e: "(extract, YMap properties) \<in> set extracts"
    and k: "k \<in> {''cne'', ''rt-class'', ''decoder_extracts''}"
    and inc: "map_of properties k = None
                \<or> map_of properties k \<in> {Some (YStr []), Some (YList []), Some (YMap [])}"
  shows "\<exists>exts. map_of valid_extracts mic = Some exts
           \<and> extract \<notin> set (map fst exts)
           \<and> list_extracts ev valid_extracts mic w =
               (Inr (), w\<lparr>printed := printed w
                  @ (''List of available extracts for mic: '' @ mic @ [nl])
                    # map (\<lambda>(key, val). key @ '': '' @ py_repr ev val) exts\<rparr>)"
proof -
  from built cfg have ml: "markets_loop markets [] = Inr valid_extracts"
    by (simp add: get_valid_extracts_def py_items_def)
  from markets_loop_lookup [OF ml dm m ex] obtain exts where
    el: "extracts_loop extracts [] = Inr exts" and look: "map_of valid_extracts mic = Some exts"
    by blast
  have "extract \<notin> set (map fst exts)"
  proof
    assume "extract \<in> set (map fst exts)"
    then obtain p where p: "(extract, p) \<in> set exts" by auto
    from extracts_loop_sound [OF el p] have pin: "(extract, p) \<in> set extracts"
      and pc: "entry_complete p = Inr True" by auto
    from de pin e have "p = YMap properties"
      by (meson eq_key_imp_eq_value)
    with entry_complete_True [OF pc] k
    have "\<exists>v n. map_of properties k = Some v \<and> py_len v = Inr n \<and> 0 < n" by blast
    with inc show False by (auto simp: py_len_def)
  qed
  with look list_extracts_prints [OF look] show ?thesis by blast
qed

theorem catalog_excludes_incomplete_witness:
  "get_valid_extracts cfg0 = Inr catalog0
   \<and> (\<exists>exts. map_of catalog0 ''M1'' = Some exts
          \<and> ''E2'' \<notin> set (map fst exts)
          \<and> list_extracts test_env catalog0 ''M1'' world0 =
              (Inr (), world0\<lparr>printed := printed world0
                 @ (''List of available extracts for mic: '' @ ''M1'' @ [nl])
                   # map (\<lambda>(key, val). key @ '': '' @ py_repr test_env val) exts\<rparr>))"
proof -
  let ?markets = "[(''M1'', YMap [(''extracts'', YMap
        [(''E1'', YMap [(''cne'', YStr ''cne1''), (''rt-class'', YStr ''C1''),
                        (''decoder_extracts'', YStr ''D1'')]),
         (''E2'', YMap [(''cne'', YStr ''cne1''), (''rt-class'', YStr []),
                        (''decoder_extracts'', YStr ''D1'')])])])]"
  have h1: "get_valid_extracts cfg0 = Inr catalog0" by (rule get_valid_extracts_cfg0)
  have h2: "py_getitem cfg0 ''markets'' = Inr (YMap ?markets)"
    by (simp add: cfg0_def py_getitem_def)
  have h3: "distinct (map fst ?markets)" by simp
  have h4: "(''M1'', YMap [(''extracts'', YMap
        [(''E1'', YMap [(''cne'', YStr ''cne1''), (''rt-class'', YStr ''C1''),
                        (''decoder_extracts'', YStr ''D1'')]),
         (''E2'', YMap [(''cne'', YStr ''cne1''), (''rt-class'', YStr []),
                        (''decoder_extracts'', YStr ''D1'')])])]) \<in> set ?markets" by simp
  have h5: "map_of [(''extracts'', YMap
        [(''E1'', YMap [(''cne'', YStr ''cne1''), (''rt-class'', YStr ''C1''),
                        (''decoder_extracts'', YStr ''D1'')]),
         (''E2'', YMap [(''cne'', YStr ''cne1''), (''rt-class'', YStr []),
                        (''decoder_extracts'', YStr ''D1'')])])] ''extracts''
      = Some (YMap [(''E1'', YMap [(''cne'', YStr ''cne1''), (''rt-class'', YStr ''C1''),
                        (''decoder_extracts'', YStr ''D1'')]),
         (''E2'', YMap [(''cne'', YStr ''cne1''), (''rt-class'', YStr []),
                        (''decoder_extracts'', YStr ''D1'')])])" by simp
  have h6: "distinct (map fst [(''E1'', YMap [(''cne'', YStr ''cne1''), (''rt-class'', YStr ''C1''),
                        (''decoder_extracts'', YStr ''D1'')]),
         (''E2'', YMap [(''cne'', YStr ''cne1''), (''rt-class'', YStr []),
                        (''decoder_extracts'', YStr ''D1'')])])" by simp
  have h7: "(''E2'', YMap [(''cne'', YStr ''cne1''), (''rt-class'', YStr []),
                        (''decoder_extracts'', YStr ''D1'')])
      \<in> set [(''E1'', YMap [(''cne'', YStr ''cne1''), (''rt-class'', YStr ''C1''),
                        (''decoder_extracts'', YStr ''D1'')]),
         (''E2'', YMap [(''cne'', YStr ''cne1''), (''rt-class'', YStr []),
                        (''decoder_extracts'', YStr ''D1'')])]" by simp
  have h8: "''rt-class'' \<in> {''cne'', ''rt-class'', ''decoder_extracts''}" by simp
  have h9: "map_of [(''cne'', YStr ''cne1''), (''rt-class'', YStr []),
                    (''decoder_extracts'', YStr ''D1'')] ''rt-class'' = None
            \<or> map_of [(''cne'', YStr ''cne1''), (''rt-class'', YStr []),
                    (''decoder_extracts'', YStr ''D1'')] ''rt-class''
               \<in> {Some (YStr []), Some (YList []), Some (YMap [])}" by simp
  from catalog_excludes_incomplete [OF h1 h2 h3 h4 h5 h6 h7 h8 h9, of test_env world0] h1
  show ?thesis by blast
qed

section \<open>Column verification\<close>

declare col_loop.simps [simp del]
declare str_nat.simps [simp del]

lemma utf8_ascii: "\<forall>c \<in> set s. (of_char c :: nat) < 0x80 \<Longrightarrow> utf8_valid s"
  by (induction s) auto

lemma universal_newlines_id: "cr \<notin> set s \<Longrightarrow> universal_newlines s = s"
  by (induction s rule: universal_newlines.induct) auto

lemma decode_ascii:
  assumes "\<forall>c \<in> set s. (of_char c :: nat) < 0x80 \<and> c \<noteq> cr"
  shows "decode_text s = Some s"
proof -
  from assms have "cr \<notin> set s" by auto
  with assms show ?thesis by (simp add: decode_text_def utf8_ascii universal_newlines_id)
qed

lemma seqs_lf_write:
  "seqs (map lf_write ms) w = (Inr (), w\<lparr>logfile := logfile w @ ms\<rparr>)"
  by (induction ms arbitrary: w) (simp_all add: thn_def lf_write_def ret_def)

lemma col_loop_match:
  "length cl = length vfl \<Longrightarrow> \<forall>j. k \<le> j \<and> j < length vfl \<longrightarrow> YStr (cl ! j) = vfl ! j \<Longrightarrow>
     col_loop k vfl cl w = (Inr True, w)"
proof (induction "length vfl - k" arbitrary: k)
  case 0
  then show ?case by (subst col_loop.simps) (simp add: ret_def)
next
  case (Suc n)
  from Suc.hyps(2) have k: "k < length vfl" and n: "n = length vfl - (k + 1)" by auto
  from Suc.prems(2) have rest: "\<forall>j. k + 1 \<le> j \<and> j < length vfl \<longrightarrow> YStr (cl ! j) = vfl ! j"
    and here: "YStr (cl ! k) = vfl ! k" using k by auto
  from Suc.hyps(1) [OF n Suc.prems(1) rest] show ?case
    using k here Suc.prems(1) by (subst col_loop.simps) simp
qed

lemma col_loop_mismatch:
  "length cl = length vfl \<Longrightarrow> i < length vfl \<Longrightarrow> k \<le> i \<Longrightarrow>
   \<forall>j. k \<le> j \<and> j < i \<longrightarrow> YStr (cl ! j) = vfl ! j \<Longrightarrow>
   vfl ! i = YStr s \<Longrightarrow> cl ! i \<noteq> s \<Longrightarrow>
     col_loop k vfl cl w =
       (Inr False, w\<lparr>logfile := logfile w @
          [''Column mismatch at output file column position '' @ str_nat (i + 1),
           ''Expected column name: '' @ s,
           ''Got column name: '' @ cl ! i]\<rparr>)"
proof (induction "i - k" arbitrary: k)
  case 0
  then have "k = i" by simp
  with 0 show ?case
    by (subst col_loop.simps) (simp add: thn_def lf_write_def ret_def)
next
  case (Suc n)
  from Suc.hyps(2) Suc.prems(3) have k: "k < i" and n: "n = i - (k + 1)" by auto
  from Suc.prems(4) k have here: "YStr (cl ! k) = vfl ! k"
    and rest: "\<forall>j. k + 1 \<le> j \<and> j < i \<longrightarrow> YStr (cl ! j) = vfl ! j" by auto
  from k have k1: "k + 1 \<le> i" by simp
  from Suc.hyps(1) [OF n Suc.prems(1) Suc.prems(2) k1 rest Suc.prems(5) Suc.prems(6)]
  show ?case using k here Suc.prems(1,2) by (subst col_loop.simps) simp
qed

lemma send_mail_ok:
  "smtp_connect ev = None \<Longrightarrow> smtp_quit ev = None \<Longrightarrow>
   send_mail ev rt st et w =
     (Inr (), case smtp_sendmail ev (mail_body ev rt st et) of
                None \<Rightarrow> w\<lparr>mails := mails w @ [mail_body ev rt st et]\<rparr>
              | Some txt \<Rightarrow> w\<lparr>logfile := logfile w @ [''Error sending email: '' @ txt]\<rparr>)"
  by (simp add: send_mail_def mail_body_def thn_def ret_def lf_write_def Let_def split: option.splits)


lemma verify_cols_count:
  assumes fl: "map_of (files w) path = Some bytes"
    and dec: "decode_text bytes = Some text"
    and cl: "col_list = split_on CHR '','' (strip_nl (readline text))"
    and conn: "smtp_connect ev = None" and quit: "smtp_quit ev = None"
    and len: "length vfl \<noteq> length col_list"
  shows "verify_cols ev path vfl rt st et w =
     (Inr False,
      (case smtp_sendmail ev (mail_body ev rt st et) of
         None \<Rightarrow> w\<lparr>mails := mails w @ [mail_body ev rt st et]\<rparr>
       | Some txt \<Rightarrow> w)
      \<lparr>logfile := logfile w @
         [''Running column verification'',
          ''Verification failed. Column count mismatch'',
          ''Expected Column Count: '' @ str_nat (length vfl),
          ''Actual Column Count: '' @ str_nat (length col_list),
          ''Expected Columns:'', py_repr ev (YList vfl),
          ''Actual Columns:'', py_repr ev (YList (map YStr col_list))]
         @ (case smtp_sendmail ev (mail_body ev rt st et) of
              None \<Rightarrow> [] | Some txt \<Rightarrow> [''Error sending email: '' @ txt])
         @ [''Script terminated with ERROR - exit code 1'']\<rparr>)"
  using fl len [unfolded cl]
  by (simp add: verify_cols_def cl [symmetric] thn_def lf_write_def read_text_def dec ret_def Let_def
        send_mail_ok [OF conn quit] split: option.splits)

lemma verify_cols_position:
  assumes fl: "map_of (files w) path = Some bytes"
    and dec: "decode_text bytes = Some text"
    and cl: "col_list = split_on CHR '','' (strip_nl (readline text))"
    and conn: "smtp_connect ev = None" and quit: "smtp_quit ev = None"
    and len: "length vfl = length col_list"
    and i: "i < length vfl" and s: "vfl ! i = YStr s" and ne: "col_list ! i \<noteq> s"
    and before: "\<forall>j<i. YStr (col_list ! j) = vfl ! j"
  shows "verify_cols ev path vfl rt st et w =
     (Inr False,
      (case smtp_sendmail ev (mail_body ev rt st et) of
         None \<Rightarrow> w\<lparr>mails := mails w @ [mail_body ev rt st et]\<rparr>
       | Some txt \<Rightarrow> w)
      \<lparr>logfile := logfile w @
         [''Running column verification'',
          ''Column mismatch at output file column position '' @ str_nat (i + 1),
          ''Expected column name: '' @ s,
          ''Got column name: '' @ col_list ! i,
          ''Expected Columns:'', py_repr ev (YList vfl),
          ''Actual Columns:'', py_repr ev (YList (map YStr col_list))]
         @ (case smtp_sendmail ev (mail_body ev rt st et) of
              None \<Rightarrow> [] | Some txt \<Rightarrow> [''Error sending email: '' @ txt])
         @ [''Script terminated with ERROR - exit code 1'']\<rparr>)"
proof -
  have loop: "\<And>w'. col_loop 0 vfl col_list w' =
       (Inr False, w'\<lparr>logfile := logfile w' @
          [''Column mismatch at output file column position '' @ str_nat (i + 1),
           ''Expected column name: '' @ s,
           ''Got column name: '' @ col_list ! i]\<rparr>)"
    using col_loop_mismatch [OF len [symmetric] i _ _ s ne, of 0] before by simp
  show ?thesis
    using fl len
    by (simp add: verify_cols_def cl [symmetric] thn_def lf_write_def read_text_def dec ret_def
          Let_def loop send_mail_ok [OF conn quit] split: option.splits)
qed

lemma verify_cols_pass:
  assumes fl: "map_of (files w) path = Some bytes"
    and dec: "decode_text bytes = Some text"
    and cl: "col_list = split_on CHR '','' (strip_nl (readline text))"
    and eq: "vfl = map YStr col_list"
  shows "verify_cols ev path vfl rt st et w =
     (Inr True,
      w\<lparr>logfile := logfile w @
           [''Running column verification'', ''Column verification passed'',
            ''Deleting verification file: '' @ path],
         files := AList.delete path (files w)\<rparr>)"
proof -
  have loop: "\<And>w'. col_loop 0 vfl col_list w' = (Inr True, w')"
    using col_loop_match [of col_list vfl 0] eq by simp
  show ?thesis
    using fl eq
    by (simp add: verify_cols_def cl [symmetric] thn_def lf_write_def read_text_def dec ret_def
          Let_def loop [unfolded eq] os_remove_def isfile_def)
qed


text \<open>
  C3. \<open>verify_cols\<close> reads the first line of the verification file (its bytes decode
  to \<open>text\<close>), splits it on commas into \<open>col_list\<close> and compares it with the expected
  columns (strings), the mail server answering. When the two lengths differ it returns \<open>False\<close>, and the log holds the two
  counts and no position. When the lengths are equal and \<open>i\<close> is the first index at which
  the columns differ, it returns \<open>False\<close> and the log holds that position counted from 1,
  once, with the two names: the loop has stopped there. The verification file is kept in
  both cases. When the lists are equal it returns \<open>True\<close> and removes the file.
\<close>

theorem verify_cols_compare:
  assumes fl: "map_of (files w) path = Some bytes"
    and dec: "decode_text bytes = Some text"
    and cl: "col_list = split_on CHR '','' (strip_nl (readline text))"
    and conn: "smtp_connect ev = None" and quit: "smtp_quit ev = None"
    and r: "r = verify_cols ev path (map YStr expected) rt st et w"
    and tl: "tail =
       [''Expected Columns:'', py_repr ev (YList (map YStr expected)),
        ''Actual Columns:'', py_repr ev (YList (map YStr col_list))]
       @ (case smtp_sendmail ev (mail_body ev rt st et) of
            None \<Rightarrow> [] | Some txt \<Rightarrow> [''Error sending email: '' @ txt])
       @ [''Script terminated with ERROR - exit code 1'']"
  shows "(length expected \<noteq> length col_list \<longrightarrow>
            fst r = Inr False \<and> files (snd r) = files w \<and>
            logfile (snd r) = logfile w @
              [''Running column verification'',
               ''Verification failed. Column count mismatch'',
               ''Expected Column Count: '' @ str_nat (length expected),
               ''Actual Column Count: '' @ str_nat (length col_list)] @ tail)
       \<and> (\<forall>i. length expected = length col_list \<and> i < length expected
               \<and> expected ! i \<noteq> col_list ! i \<and> (\<forall>j<i. expected ! j = col_list ! j) \<longrightarrow>
            fst r = Inr False \<and> files (snd r) = files w \<and>
            logfile (snd r) = logfile w @
              [''Running column verification'',
               ''Column mismatch at output file column position '' @ str_nat (i + 1),
               ''Expected column name: '' @ expected ! i,
               ''Got column name: '' @ col_list ! i] @ tail)
       \<and> (expected = col_list \<longrightarrow>
            fst r = Inr True \<and> files (snd r) = AList.delete path (files w) \<and>
            logfile (snd r) = logfile w @
              [''Running column verification'', ''Column verification passed'',
               ''Deleting verification file: '' @ path])"
proof (intro conjI impI allI)
  assume len: "length expected \<noteq> length col_list"
  then have len': "length (map YStr expected) \<noteq> length col_list" by simp
  note c = verify_cols_count [OF fl dec cl conn quit len', of rt st et]
  show "fst r = Inr False" by (simp add: r c)
  show "files (snd r) = files w" by (simp add: r c split: option.splits)
  show "logfile (snd r) = logfile w @
              [''Running column verification'',
               ''Verification failed. Column count mismatch'',
               ''Expected Column Count: '' @ str_nat (length expected),
               ''Actual Column Count: '' @ str_nat (length col_list)] @ tail"
    by (simp add: r c tl split: option.splits)
next
  fix i
  assume a: "length expected = length col_list \<and> i < length expected
               \<and> expected ! i \<noteq> col_list ! i \<and> (\<forall>j<i. expected ! j = col_list ! j)"
  then have len': "length (map YStr expected) = length col_list"
    and i': "i < length (map YStr expected)"
    and s: "map YStr expected ! i = YStr (expected ! i)"
    and ne: "col_list ! i \<noteq> expected ! i"
    and before: "\<forall>j<i. YStr (col_list ! j) = map YStr expected ! j"
    by auto
  note c = verify_cols_position [OF fl dec cl conn quit len' i' s ne before, of rt st et]
  show "fst r = Inr False" by (simp add: r c)
  show "files (snd r) = files w" by (simp add: r c split: option.splits)
  show "logfile (snd r) = logfile w @
              [''Running column verification'',
               ''Column mismatch at output file column position '' @ str_nat (i + 1),
               ''Expected column name: '' @ expected ! i,
               ''Got column name: '' @ col_list ! i] @ tail"
    by (simp add: r c tl split: option.splits)
next
  assume eq: "expected = col_list"
  then have eq': "map YStr expected = map YStr col_list" by simp
  note c = verify_cols_pass [OF fl dec cl eq', of ev rt st et]
  show "fst r = Inr True" by (simp add: r c)
  show "files (snd r) = AList.delete path (files w)" by (simp add: r c)
  show "logfile (snd r) = logfile w @
              [''Running column verification'', ''Column verification passed'',
               ''Deleting verification file: '' @ path]"
    by (simp add: r c)
qed

theorem verify_cols_compare_witness:
  "(let w = world0\<lparr>files := [(''v.csv'', ''a,b,c'' @ [nl])]\<rparr>;
        r = verify_cols test_env ''v.csv'' (map YStr [''a'', ''b'']) (YStr ''C1'') ''s'' ''e'' w
    in fst r = Inr False \<and>
       logfile (snd r) =
         [''Running column verification'',
          ''Verification failed. Column count mismatch'',
          ''Expected Column Count: 2'',
          ''Actual Column Count: 3'',
          ''Expected Columns:'', ''<value>'', ''Actual Columns:'', ''<value>'',
          ''Script terminated with ERROR - exit code 1''])
   \<and> (let w = world0\<lparr>files := [(''v.csv'', ''a,x,c'' @ [nl])]\<rparr>;
        r = verify_cols test_env ''v.csv'' (map YStr [''a'', ''b'', ''c'']) (YStr ''C1'') ''s'' ''e'' w
    in fst r = Inr False \<and>
       files (snd r) = [(''v.csv'', ''a,x,c'' @ [nl])] \<and>
       logfile (snd r) =
         [''Running column verification'',
          ''Column mismatch at output file column position 2'',
          ''Expected column name: b'',
          ''Got column name: x'',
          ''Expected Columns:'', ''<value>'', ''Actual Columns:'', ''<value>'',
          ''Script terminated with ERROR - exit code 1''])"
proof -
  have conn: "smtp_connect test_env = None" and quit: "smtp_quit test_env = None"
    by (simp_all add: test_env_def)
  have f1: "map_of (files (world0\<lparr>files := [(''v.csv'', ''a,b,c'' @ [nl])]\<rparr>)) ''v.csv''
              = Some (''a,b,c'' @ [nl])" by simp
  have d1: "decode_text (''a,b,c'' @ [nl]) = Some (''a,b,c'' @ [nl])"
    by (simp add: decode_ascii nl_def cr_def)
  have d2: "decode_text (''a,x,c'' @ [nl]) = Some (''a,x,c'' @ [nl])"
    by (simp add: decode_ascii nl_def cr_def)
  have c1: "[''a'', ''b'', ''c''] = split_on CHR '','' (strip_nl (readline (''a,b,c'' @ [nl])))"
    by (simp add: strip_nl_def readline_def nl_def)
  have f2: "map_of (files (world0\<lparr>files := [(''v.csv'', ''a,x,c'' @ [nl])]\<rparr>)) ''v.csv''
              = Some (''a,x,c'' @ [nl])" by simp
  have c2: "[''a'', ''x'', ''c''] = split_on CHR '','' (strip_nl (readline (''a,x,c'' @ [nl])))"
    by (simp add: strip_nl_def readline_def nl_def)
  note t1 = verify_cols_compare [OF f1 d1 c1 conn quit refl refl,
      of "[''a'', ''b'']" "YStr ''C1''" "''s''" "''e''", THEN conjunct1]
  note t2 = verify_cols_compare [OF f2 d2 c2 conn quit refl refl,
      of "[''a'', ''b'', ''c'']" "YStr ''C1''" "''s''" "''e''", THEN conjunct2, THEN conjunct1,
      THEN spec, of 1]
  have p1: "length [''a'', ''b''] \<noteq> length [''a'', ''b'', ''c'']" by simp
  have p2: "length [''a'', ''b'', ''c''] = length [''a'', ''x'', ''c''] \<and> 1 < length [''a'', ''b'', ''c'']
           \<and> [''a'', ''b'', ''c''] ! 1 \<noteq> [''a'', ''x'', ''c''] ! 1
           \<and> (\<forall>j<1. [''a'', ''b'', ''c''] ! j = [''a'', ''x'', ''c''] ! j)" by simp
  from t1 [rule_format, OF p1] t2 [rule_format, OF p2]
  show ?thesis
    by (simp add: Let_def world0_def test_env_def str_nat.simps)
qed

section \<open>Expected column list\<close>

lemma split_on_nosep: "c \<notin> set a \<Longrightarrow> split_on c a = [a]"
  by (induction a) auto

lemma split_on_sep: "c \<notin> set a \<Longrightarrow> split_on c (a @ c # rest) = a # split_on c rest"
  by (induction a) auto

lemma remove_dq_append: "remove_dq (a @ b) = remove_dq a @ remove_dq b"
  by (simp add: remove_dq_def)

lemma remove_dq_comma: "remove_dq (CHR '','' # s) = CHR '','' # remove_dq s"
  by (simp add: remove_dq_def dq_def)

lemma remove_dq_set: "c \<notin> set a \<Longrightarrow> c \<notin> set (remove_dq a)"
  by (simp add: remove_dq_def)

lemma split_join:
  "extract_fields \<noteq> [] \<Longrightarrow> \<forall>f \<in> set extract_fields. CHR '','' \<notin> set f \<Longrightarrow>
     split_on CHR '','' (remove_dq (join '','' extract_fields)) = map remove_dq extract_fields"
proof (induction "'',''" extract_fields rule: join.induct)
  case 1
  then show ?case by simp
next
  case (2 x)
  then show ?case by (simp add: split_on_nosep remove_dq_set)
next
  case (3 x y ys)
  then show ?case
    by (simp add: remove_dq_append remove_dq_comma split_on_sep remove_dq_set)
qed

lemma str_items_map: "str_items (map YStr extract_fields) = Some extract_fields"
  by (induction extract_fields) auto

lemma make_list:
  assumes "extract_fields \<noteq> []" "\<forall>f \<in> set extract_fields. CHR '','' \<notin> set f"
  shows "bnd (join_fields (YList (map YStr extract_fields))) (make_verify_field_list (YList added))
           = Inr (added @ map (\<lambda>f. YStr (remove_dq f)) extract_fields)"
  using split_join [OF assms]
  by (simp add: bnd_def join_fields_def str_items_map make_verify_field_list_def Let_def comp_def)

text \<open>
  C5, as the code has it. When \<open>main\<close> has resolved an extract whose decoder extract lists
  the fields \<open>extract_fields\<close> (strings, at least one, none with a comma in it) and the
  appended fields \<open>added\<close>, the expected column list is \<open>added\<close> in order followed by the
  fields in order, each with its double quotes removed: the list is rebuilt from the
  comma-joined field list after \<open>replace('"', "")\<close>.
\<close>

theorem expected_columns:
  assumes res: "resolve_extract ev cfg valid_extracts mic extract_name = Inr rs"
    and look: "map_of valid_extracts mic = Some exts" "map_of exts extract_name = Some properties"
    and dec: "py_getitem properties ''decoder_extracts'' = Inr (YStr d)"
    and ds: "py_getitem cfg ''decoder_extracts'' = Inr ds"
    and de: "py_getitem ds d = Inr de"
    and ef: "py_getitem de ''extract_fields'' = Inr (YList (map YStr extract_fields))"
    and af: "py_getitem de ''corvil_added_fields'' = Inr (YList added)"
    and ne: "extract_fields \<noteq> []" and nc: "\<forall>f \<in> set extract_fields. CHR '','' \<notin> set f"
  shows "rs_verify_field_list rs = added @ map (\<lambda>f. YStr (remove_dq f)) extract_fields"
proof -
  have m: "make_verify_field_list (YList added) (join '','' extract_fields)
             = Inr (added @ map (\<lambda>f. YStr (remove_dq f)) extract_fields)"
    using make_list [OF ne nc, of added]
    by (simp add: bnd_def join_fields_def str_items_map)
  have j: "join_fields (YList (map YStr extract_fields)) = Inr (join '','' extract_fields)"
    by (simp add: join_fields_def str_items_map)
  from res show ?thesis
    unfolding resolve_extract_def Let_def bnd_def
    by (auto simp: look dec ds de ef af j m py_getitem_y_def split: sum.splits)
qed


lemma resolve_cfg0:
  "resolve_extract test_env cfg0 catalog0 ''M1'' ''E1'' =
     Inr \<lparr>rs_username = YStr ''u'', rs_password = YStr ''p'', rs_ip_address = YStr ''10.0.0.5'',
          rs_rt_class = YStr ''C1'', rs_field_list = ''px,qty'',
          rs_verify_field_list = [YStr ''ts'', YStr ''px'', YStr ''qty'']\<rparr>"
  by (simp add: resolve_extract_def bnd_def test_env_def cfg0_def catalog0_def py_getitem_def
        py_getitem_y_def join_fields_def make_verify_field_list_def remove_dq_def dq_def)

text \<open>
  C5 as stated fails on a field name written with double quotes: the expected column is
  the name without them, not the configured field.
\<close>

theorem expected_columns_counterexample:
  "map_sum id rs_verify_field_list (resolve_extract test_env cfg_quoted catalog0 ''M1'' ''E1'')
     = Inr [YStr ''ts'', YStr ''px'', YStr ''qty'']
   \<and> [YStr ''ts'', YStr ''px'', YStr ''qty'']
        \<noteq> [YStr ''ts''] @ [YStr ([dq] @ ''px'' @ [dq]), YStr ''qty'']"
  by (simp add: resolve_extract_def bnd_def test_env_def cfg_quoted_def catalog0_def py_getitem_def
        py_getitem_y_def join_fields_def make_verify_field_list_def remove_dq_def dq_def)

theorem expected_columns_witness:
  "rs_verify_field_list
     \<lparr>rs_username = YStr ''u'', rs_password = YStr ''p'', rs_ip_address = YStr ''10.0.0.5'',
      rs_rt_class = YStr ''C1'', rs_field_list = ''px,qty'',
      rs_verify_field_list = [YStr ''ts'', YStr ''px'', YStr ''qty'']\<rparr>
   = [YStr ''ts''] @ map (\<lambda>f. YStr (remove_dq f)) [''px'', ''qty'']"
proof -
  have look: "map_of catalog0 ''M1'' = Some [(''E1'', YMap [(''cne'', YStr ''cne1''),
        (''rt-class'', YStr ''C1''), (''decoder_extracts'', YStr ''D1'')])]"
    "map_of [(''E1'', YMap [(''cne'', YStr ''cne1''),
        (''rt-class'', YStr ''C1''), (''decoder_extracts'', YStr ''D1'')])] ''E1''
      = Some (YMap [(''cne'', YStr ''cne1''),
        (''rt-class'', YStr ''C1''), (''decoder_extracts'', YStr ''D1'')])"
    by (simp_all add: catalog0_def)
  have dec: "py_getitem (YMap [(''cne'', YStr ''cne1''),
        (''rt-class'', YStr ''C1''), (''decoder_extracts'', YStr ''D1'')]) ''decoder_extracts''
      = Inr (YStr ''D1'')" by (simp add: py_getitem_def)
  have ds: "py_getitem cfg0 ''decoder_extracts'' = Inr (YMap [(''D1'', YMap
         [(''extract_fields'', YList [YStr ''px'', YStr ''qty'']),
          (''corvil_added_fields'', YList [YStr ''ts''])])])"
    by (simp add: py_getitem_def cfg0_def)
  have de: "py_getitem (YMap [(''D1'', YMap
         [(''extract_fields'', YList [YStr ''px'', YStr ''qty'']),
          (''corvil_added_fields'', YList [YStr ''ts''])])]) ''D1'' = Inr (YMap
         [(''extract_fields'', YList [YStr ''px'', YStr ''qty'']),
          (''corvil_added_fields'', YList [YStr ''ts''])])"
    by (simp add: py_getitem_def)
  have ef: "py_getitem (YMap
         [(''extract_fields'', YList [YStr ''px'', YStr ''qty'']),
          (''corvil_added_fields'', YList [YStr ''ts''])]) ''extract_fields''
       = Inr (YList (map YStr [''px'', ''qty'']))"
    by (simp add: py_getitem_def)
  have af: "py_getitem (YMap
         [(''extract_fields'', YList [YStr ''px'', YStr ''qty'']),
          (''corvil_added_fields'', YList [YStr ''ts''])]) ''corvil_added_fields''
       = Inr (YList [YStr ''ts''])"
    by (simp add: py_getitem_def)
  have ne: "[''px'', ''qty''] \<noteq> []" by simp
  have nc: "\<forall>f \<in> set [''px'', ''qty'']. CHR '','' \<notin> set f" by simp
  show ?thesis
    by (rule expected_columns [OF resolve_cfg0 look dec ds de ef af ne nc])
qed

section \<open>Line count and manifest\<close>

lemma foldl_enumerate:
  "foldl (\<lambda>i (j, x). Some j) acc (enumerate n xs)
     = (if xs = [] then acc else Some (n + length xs - 1))"
  by (induction xs arbitrary: n acc) auto

lemma enumerate_last_eq:
  "enumerate_last xs = (if xs = [] then None else Some (length xs - 1))"
  by (simp add: enumerate_last_def foldl_enumerate)

lemma lines_acc_nonempty: "cur \<noteq> [] \<or> s \<noteq> [] \<Longrightarrow> lines_acc cur s \<noteq> []"
  by (induction s arbitrary: cur) auto

lemma py_lines_nonempty: "s \<noteq> [] \<Longrightarrow> py_lines s \<noteq> []"
  by (simp add: py_lines_def lines_acc_nonempty)

lemma py_lines_empty: "py_lines [] = []"
  by (simp add: py_lines_def)

lemma file_lcount_lines:
  "map_of (files w) fname = Some bytes \<Longrightarrow> gunzip ev bytes = Some text \<Longrightarrow> text \<noteq> [] \<Longrightarrow>
     file_lcount ev fname w = (Inr (length (py_lines text)), w)"
  using py_lines_nonempty [of "text"]
  by (simp add: file_lcount_def thn_def read_bytes_def enumerate_last_eq ret_def)

lemma file_lcount_empty:
  "map_of (files w) fname = Some bytes \<Longrightarrow> gunzip ev bytes = Some [] \<Longrightarrow>
     file_lcount ev fname w = (Inl (UnboundLocalError ''i''), w)"
  by (simp add: file_lcount_def thn_def read_bytes_def enumerate_last_eq py_lines_empty raise_def)

lemma manifest_one_writes:
  assumes "re_match ev rx file_names"
    and "map_of (files w) (path_join f_path file_names) = Some bytes"
    and "gunzip ev bytes = Some text" and "text \<noteq> []"
  shows "manifest_one ev f_path rx mnemonic testing file_names w =
     (Inr (), w\<lparr>files := AList.update
        (path_join f_path
           (sub_gz file_names
              @ (if length bytes < 5000 \<and> testing = ''False'' then ''.error'' else [])))
        (mnemonic @ ''|'' @ file_names @ ''|'' @ str_nat (length bytes) @ ''|0'' @ [nl])
        (files w)\<rparr>)"
  using assms file_lcount_lines [OF assms(2,3,4)]
  by (simp add: manifest_one_def thn_def getsize_def read_bytes_def ret_def write_text_def
        manifestfile_name_def Let_def)

lemma manifest_one_skip:
  "\<not> re_match ev rx n \<Longrightarrow> manifest_one ev f_path rx mnemonic testing n w = (Inr (), w)"
  by (simp add: manifest_one_def ret_def)

lemma manifest_loop_skip:
  "\<forall>n \<in> set pre. \<not> re_match ev rx n \<Longrightarrow>
     seqs (map (manifest_one ev f_path rx mnemonic testing) (pre @ rest)) w
       = seqs (map (manifest_one ev f_path rx mnemonic testing) rest) w"
  by (induction pre) (simp_all add: thn_def manifest_one_skip)

lemma manifest_one_empty:
  assumes "re_match ev rx file_names"
    and "map_of (files w) (path_join f_path file_names) = Some bytes"
    and "gunzip ev bytes = Some []"
  shows "manifest_one ev f_path rx mnemonic testing file_names w
           = (Inl (UnboundLocalError ''i''), w)"
  using assms(1) file_lcount_empty [OF assms(2,3)]
  by (simp add: manifest_one_def thn_def)

text \<open>
  C6, as the code has it. For an artifact of the directory whose name matches the pattern
  and whose content decompresses to at least one line, the loop body writes one manifest:
  its name is the artifact's name with every \<open>.gz\<close> replaced by \<open>.manifest\<close>, followed by
  \<open>.error\<close> exactly when the size on disk is below 5000 bytes and \<open>--testing\<close> is the string
  \<open>False\<close>. So 5000 bytes or more never give the suffix, and neither does any other value
  of \<open>--testing\<close>, \<open>True\<close> included.
\<close>

theorem manifest_error_suffix:
  assumes m: "re_match ev rx file_names"
    and f: "map_of (files w) (path_join f_path file_names) = Some bytes"
    and g: "gunzip ev bytes = Some text" and t: "text \<noteq> []"
  shows "manifest_one ev f_path rx mnemonic testing file_names w =
     (Inr (), w\<lparr>files := AList.update
        (path_join f_path
           (sub_gz file_names
              @ (if length bytes < 5000 \<and> testing = ''False'' then ''.error'' else [])))
        (mnemonic @ ''|'' @ file_names @ ''|'' @ str_nat (length bytes) @ ''|0'' @ [nl])
        (files w)\<rparr>)"
  by (rule manifest_one_writes [OF m f g t])

lemma small_gz_length: "length small_gz = 4999"
  by (simp add: small_gz_def gz_def)

lemma small_gz_gunzip: "gunzip test_env small_gz = Some (''ts,px,qty'' @ [nl] @ replicate 4987 (CHR ''x''))"
  by (simp add: small_gz_def gz_def test_env_def)

lemma test_match: "re_match test_env ''^foo.*.gz'' ''foo.csv.gz''"
  by (simp add: test_env_def nl_def)

text \<open>
  C6 as stated fails for a value of \<open>--testing\<close> that is neither \<open>True\<close> nor \<open>False\<close>: an
  artifact of 4999 bytes gets a manifest without the suffix.
\<close>

theorem manifest_error_suffix_counterexample:
  "manifest_one test_env ''out/'' ''^foo.*.gz'' ''MIC1'' ''no'' ''foo.csv.gz''
     (world0\<lparr>files := [(''out/foo.csv.gz'', small_gz)]\<rparr>)
   = (Inr (), world0\<lparr>files := [(''out/foo.csv.gz'', small_gz),
                                 (''out/foo.csv.manifest'', ''MIC1|foo.csv.gz|4999|0'' @ [nl])]\<rparr>)
   \<and> length small_gz = 4999 \<and> ''no'' \<noteq> ''True''"
proof -
  have f: "map_of (files (world0\<lparr>files := [(''out/foo.csv.gz'', small_gz)]\<rparr>))
             (path_join ''out/'' ''foo.csv.gz'') = Some small_gz"
    by (simp add: path_join_def dir_prefix_def)
  have t: "''ts,px,qty'' @ [nl] @ replicate 4987 (CHR ''x'') \<noteq> []" by simp
  have s: "str_nat 4999 = ''4999''" by (simp add: str_nat.simps)
  from manifest_one_writes [OF test_match f small_gz_gunzip t, of "''MIC1''" "''no''"]
  show ?thesis
    by (simp add: small_gz_length s path_join_def dir_prefix_def nl_def)
qed

theorem manifest_error_suffix_witness:
  "manifest_one test_env ''out/'' ''^foo.*.gz'' ''MIC1'' ''False'' ''foo.csv.gz''
     (world0\<lparr>files := [(''out/foo.csv.gz'', small_gz)]\<rparr>)
   = (Inr (), world0\<lparr>files := [(''out/foo.csv.gz'', small_gz),
                  (''out/foo.csv.manifest.error'', ''MIC1|foo.csv.gz|4999|0'' @ [nl])]\<rparr>)"
proof -
  have f: "map_of (files (world0\<lparr>files := [(''out/foo.csv.gz'', small_gz)]\<rparr>))
             (path_join ''out/'' ''foo.csv.gz'') = Some small_gz"
    by (simp add: path_join_def dir_prefix_def)
  have t: "''ts,px,qty'' @ [nl] @ replicate 4987 (CHR ''x'') \<noteq> []" by simp
  have s: "str_nat 4999 = ''4999''" by (simp add: str_nat.simps)
  from manifest_error_suffix [OF test_match f small_gz_gunzip t, of "''MIC1''" "''False''"]
  show ?thesis
    by (simp add: small_gz_length s path_join_def dir_prefix_def nl_def)
qed

text \<open>
  C10. For a gzip file whose content is \<open>text\<close>: when \<open>text\<close> is not empty \<open>file_lcount\<close>
  returns the number of its lines, which is at least 1; when it is empty \<open>file_lcount\<close>
  raises \<open>UnboundLocalError\<close> for \<open>i\<close> instead of returning 0; and the manifest loop, on
  reaching a matching artifact that is empty (the names before it not matching), ends
  with that exception and writes nothing.
\<close>

theorem file_lcount_nonempty_only:
  assumes f: "map_of (files w) (path_join f_path file_names) = Some bytes"
    and g: "gunzip ev bytes = Some text"
  shows "(text \<noteq> [] \<longrightarrow>
            file_lcount ev (path_join f_path file_names) w = (Inr (length (py_lines text)), w)
            \<and> 0 < length (py_lines text))
       \<and> (text = [] \<longrightarrow>
            file_lcount ev (path_join f_path file_names) w = (Inl (UnboundLocalError ''i''), w))
       \<and> (text = [] \<and> re_match ev rx file_names \<and> (\<forall>n \<in> set pre. \<not> re_match ev rx n) \<longrightarrow>
            seqs (map (manifest_one ev f_path rx mnemonic testing) (pre @ file_names # post)) w
              = (Inl (UnboundLocalError ''i''), w))"
proof (intro conjI impI)
  assume t: "text \<noteq> []"
  from file_lcount_lines [OF f g t]
  show "file_lcount ev (path_join f_path file_names) w = (Inr (length (py_lines text)), w)" .
  from py_lines_nonempty [OF t] show "0 < length (py_lines text)" by simp
next
  assume "text = []"
  with g have g': "gunzip ev bytes = Some []" by simp
  from file_lcount_empty [OF f g']
  show "file_lcount ev (path_join f_path file_names) w = (Inl (UnboundLocalError ''i''), w)" .
next
  assume a: "text = [] \<and> re_match ev rx file_names \<and> (\<forall>n \<in> set pre. \<not> re_match ev rx n)"
  with g have g': "gunzip ev bytes = Some []" by simp
  from a have m: "re_match ev rx file_names" and p: "\<forall>n \<in> set pre. \<not> re_match ev rx n" by auto
  show "seqs (map (manifest_one ev f_path rx mnemonic testing) (pre @ file_names # post)) w
          = (Inl (UnboundLocalError ''i''), w)"
    by (subst manifest_loop_skip [OF p]) (simp add: thn_def manifest_one_empty [OF m f g'])
qed


theorem file_lcount_nonempty_only_witness:
  "file_lcount test_env ''out/foo.csv.gz'' (world0\<lparr>files := [(''out/foo.csv.gz'', gz canary_rows)]\<rparr>)
     = (Inr 2, world0\<lparr>files := [(''out/foo.csv.gz'', gz canary_rows)]\<rparr>)
   \<and> file_lcount test_env ''out/foo.csv.gz'' (world0\<lparr>files := [(''out/foo.csv.gz'', gz [])]\<rparr>)
     = (Inl (UnboundLocalError ''i''), world0\<lparr>files := [(''out/foo.csv.gz'', gz [])]\<rparr>)
   \<and> seqs (map (manifest_one test_env ''out/'' ''^foo.*.gz'' ''MIC1'' ''False'')
             ([''bar.txt''] @ ''foo.csv.gz'' # [''foo_2.csv.gz'']))
        (world0\<lparr>files := [(''out/foo.csv.gz'', gz [])]\<rparr>)
     = (Inl (UnboundLocalError ''i''), world0\<lparr>files := [(''out/foo.csv.gz'', gz [])]\<rparr>)"
proof -
  have f1: "map_of (files (world0\<lparr>files := [(''out/foo.csv.gz'', gz canary_rows)]\<rparr>))
              (path_join ''out/'' ''foo.csv.gz'') = Some (gz canary_rows)"
    by (simp add: path_join_def dir_prefix_def)
  have g1: "gunzip test_env (gz canary_rows) = Some canary_rows"
    by (simp add: test_env_def gz_def)
  have f2: "map_of (files (world0\<lparr>files := [(''out/foo.csv.gz'', gz [])]\<rparr>))
              (path_join ''out/'' ''foo.csv.gz'') = Some (gz [])"
    by (simp add: path_join_def dir_prefix_def)
  have g2: "gunzip test_env (gz []) = Some []"
    by (simp add: test_env_def gz_def)
  have ne: "canary_rows \<noteq> []" by (simp add: canary_rows_def)
  have n2: "length (py_lines canary_rows) = 2"
    by (simp add: canary_rows_def py_lines_def nl_def)
  have p: "path_join ''out/'' ''foo.csv.gz'' = ''out/foo.csv.gz''"
    by (simp add: path_join_def dir_prefix_def)
  have sk: "[] = [] \<and> re_match test_env ''^foo.*.gz'' ''foo.csv.gz''
              \<and> (\<forall>n \<in> set [''bar.txt'']. \<not> re_match test_env ''^foo.*.gz'' n)"
    by (simp add: test_env_def nl_def)
  note a = file_lcount_nonempty_only [OF f1 g1, THEN conjunct1, rule_format, OF ne]
  note b = file_lcount_nonempty_only [OF f2 g2, THEN conjunct2, THEN conjunct1, rule_format, OF refl]
  note c = file_lcount_nonempty_only [OF f2 g2, THEN conjunct2, THEN conjunct2, rule_format, OF sk,
             of "''MIC1''" "''False''" "[''foo_2.csv.gz'']"]
  from a b c show ?thesis by (simp add: p n2)
qed

section \<open>Invalid extract name\<close>








section \<open>Output collision\<close>

lemma isfile_logfile [simp]: "isfile (w\<lparr>logfile := l\<rparr>) q = isfile w q"
  by (simp add: isfile_def)








section \<open>What main does around the verification\<close>

text \<open>
  C1, on the code. A run on Linux in which \<open>verify_cols\<close> finds two columns where three
  are expected: the log holds the failure and the line \<open>Script terminated with ERROR - exit
  code 1\<close>, but \<open>main\<close> does not look at the value \<open>verify_cols\<close> returns. The full command
  is run after the canary, the output file is written and the exit status is 0.
\<close>

theorem schema_mismatch_runs_full:
  "fst (script test_env cfg0 args0
          (world0\<lparr>files := [(''out/foo_test'', mismatch_canary), (''out/foo_test.csv'', [])]\<rparr>)) = 0
   \<and> logfile (snd (script test_env cfg0 args0
          (world0\<lparr>files := [(''out/foo_test'', mismatch_canary), (''out/foo_test.csv'', [])]\<rparr>)))
       = [''Command line arguments used to invoke the script: Namespace()'',
          ''Generating verification file'',
          ''Running column verification'',
          ''Verification failed. Column count mismatch'',
          ''Expected Column Count: 3'', ''Actual Column Count: 2'',
          ''Expected Columns:'', ''<value>'', ''Actual Columns:'', ''<value>'',
          ''Script terminated with ERROR - exit code 1'',
          ''Deleting test extract file: out/foo_test.csv'',
          ''---------------------------------------------------------------'']
   \<and> map snd (commands (snd (script test_env cfg0 args0
          (world0\<lparr>files := [(''out/foo_test'', mismatch_canary), (''out/foo_test.csv'', [])]\<rparr>))))
       = [''Generating test file for column verification'', ''Running extract'']
   \<and> map_of (files (snd (script test_env cfg0 args0
          (world0\<lparr>files := [(''out/foo_test'', mismatch_canary), (''out/foo_test.csv'', [])]\<rparr>))))
         ''out/foo.csv'' = Some (gz canary_rows)"
  by code_simp

text \<open>
  C8, on the code. The canary pipeline writes \<open>out/foo_test.csv.gz\<close>; \<open>main\<close> removes
  \<open>out/foo_test.csv\<close>. In a run whose verification passes, the file the canary wrote is
  still there at the end. In a run that starts from an empty directory \<open>open(test_filename)\<close>
  raises, nothing is removed, and the file the canary wrote is left as well.
\<close>

theorem canary_artifact_remains:
  "map_of (files (snd (script test_env cfg0 args0
          (world0\<lparr>files := [(''out/foo_test'', match_canary), (''out/foo_test.csv'', [])]\<rparr>))))
         ''out/foo_test.csv.gz'' = Some (gz canary_rows)
   \<and> ''Column verification passed'' \<in> set (logfile (snd (script test_env cfg0 args0
          (world0\<lparr>files := [(''out/foo_test'', match_canary), (''out/foo_test.csv'', [])]\<rparr>))))
   \<and> map_of (files (snd (script test_env cfg0 args0
          (world0\<lparr>files := [(''out/foo_test'', match_canary), (''out/foo_test.csv'', [])]\<rparr>))))
         ''out/foo_test.csv'' = None
   \<and> script test_env cfg0 args0 world0 =
        (0, world0\<lparr>files := [(''out/foo_test.csv.gz'', gz canary_rows)],
                  logfile := [''Command line arguments used to invoke the script: Namespace()'',
                              ''Generating verification file''],
                  printed := [''<exception>''],
                  commands := [(base_command test_env False
                     \<lparr>rs_username = YStr ''u'', rs_password = YStr ''p'',
                      rs_ip_address = YStr ''10.0.0.5'', rs_rt_class = YStr ''C1'',
                      rs_field_list = ''px,qty'',
                      rs_verify_field_list = [YStr ''ts'', YStr ''px'', YStr ''qty'']\<rparr>
                     ''2024-01-01 00:00:00'' ''2024-01-01 00:00:01''
                     @ '' '' @ '' | ./csv-comma2soh'' @ tr_stage @ '' | /bin/gzip > out/foo_test.csv.gz'',
                     ''Generating test file for column verification'')]\<rparr>)"
  by code_simp

section \<open>Header line\<close>

text \<open>
  C4, on the code. The retrieval tool answers the canary with the compressed example of
  the specification, whose sixth decompressed line is \<open>a,b,c\<close>, and the pipeline writes
  it to \<open>out/foo_test.csv.gz\<close>. \<open>main\<close> opens \<open>out/foo_test\<close>, a file no command writes,
  as plain text: from an empty directory \<open>open\<close> raises \<open>FileNotFoundError\<close>, no
  verification file is written, no header is compared, only the canary command has run
  and the exit status is 0. Were the compressed bytes under the name that is opened, they
  would be decoded as text, not decompressed: \<open>UnicodeDecodeError\<close>.
\<close>

theorem compressed_header_not_read:
  "gunzip canary_env (gz example_lines) = Some example_lines
   \<and> py_lines example_lines ! 5 = ''a,b,c'' @ [nl]
   \<and> fst (main canary_env cfg0 args0 world0) = Inl (FileNotFoundError ''out/foo_test'')
   \<and> files (snd (main canary_env cfg0 args0 world0))
        = [(''out/foo_test.csv.gz'', gz example_lines)]
   \<and> logfile (snd (main canary_env cfg0 args0 world0))
        = [''Command line arguments used to invoke the script: Namespace()'',
           ''Generating verification file'']
   \<and> map snd (commands (snd (main canary_env cfg0 args0 world0)))
        = [''Generating test file for column verification'']
   \<and> fst (script canary_env cfg0 args0 world0) = 0
   \<and> fst (main canary_env cfg0 args0
        (world0\<lparr>files := [(''out/foo_test'', gz example_lines), (''out/foo_test.csv'', [])]\<rparr>))
        = Inl UnicodeDecodeError"
  by code_simp

end
